theory Spec2Isabelle
  imports Main "HOL-Library.AList"
begin

section \<open>Python values\<close>

text \<open>
  The scripts move JSON documents around: what \<^verbatim>\<open>response.json()\<close> and
  \<^verbatim>\<open>json.loads\<close> return, and what \<^verbatim>\<open>json.dumps\<close> and \<^verbatim>\<open>jsonify\<close> take. A Python
  \<^verbatim>\<open>dict\<close> keeps its keys in insertion order and has every key once, so it is an
  association list that is only changed through \<open>AList.update\<close> (an existing key keeps
  its place, a new key goes to the end) and read through \<open>map_of\<close>. \<^verbatim>\<open>None\<close> is
  \<open>JNull\<close>. A string is a list of characters with code points below 256 (what an HTTP
  header decoded as Latin-1 can hold); numbers are integers, floats are left out.
\<close>

datatype json =
    JNull
  | JBool bool
  | JInt int
  | JString string
  | JArray "json list"
  | JObject "(string \<times> json) list"

type_synonym dict = "(string \<times> json) list"

text \<open>
  Exceptions are values: the class of the exception and its message \<^verbatim>\<open>str(e)\<close>.
  \<open>HTTPError\<close>, \<open>ConnectionError\<close> and \<open>Timeout\<close> are the subclasses of
  \<^verbatim>\<open>requests.exceptions.RequestException\<close> that the registry client's
  \<^verbatim>\<open>except\<close> clauses catch with it; \<open>UnicodeEncodeError\<close> is what writing a text
  raises when the encoding of the stream has no code for one of its characters; every
  class is a subclass of \<^verbatim>\<open>Exception\<close>.
\<close>

datatype exn_class =
    Exception | KeyError | TypeError | AttributeError | ValueError | UnicodeEncodeError
  | RequestException | HTTPError | ConnectionError | Timeout

datatype exn = Exn exn_class string

fun str_exn :: "exn \<Rightarrow> string" where
  "str_exn (Exn c m) = m"

fun is_RequestException :: "exn \<Rightarrow> bool" where
  "is_RequestException (Exn c m) = (c \<in> {RequestException, HTTPError, ConnectionError, Timeout})"

subsection \<open>Text of numbers and values\<close>

definition digit_char :: "nat \<Rightarrow> char" where
  "digit_char n = ''0123456789abcdef'' ! (n mod 16)"

fun decimal :: "nat \<Rightarrow> string" where
  "decimal n = (if n < 10 then [digit_char n] else decimal (n div 10) @ [digit_char (n mod 10)])"

definition str_int :: "int \<Rightarrow> string" where
  "str_int i = (if i < 0 then CHR ''-'' # decimal (nat (- i)) else decimal (nat i))"

definition hex2 :: "nat \<Rightarrow> string" where
  "hex2 n = [digit_char (n div 16), digit_char n]"

definition quoted :: "string \<Rightarrow> string" where
  "quoted s = CHR 0x27 # s @ [CHR 0x27]"

fun join :: "string \<Rightarrow> string list \<Rightarrow> string" where
  "join sep [] = []"
| "join sep [x] = x"
| "join sep (x # y # ys) = x @ sep @ join sep (y # ys)"

text \<open>
  \<^verbatim>\<open>repr\<close> of a string: double quotes when the string has a single quote and no double
  quote, single quotes otherwise; the quote and the backslash are escaped, tab, newline
  and carriage return get their letter, and a character that is not printable
  (a control character, the no-break space, the soft hyphen) is written \<^verbatim>\<open>\xNN\<close>.
\<close>

definition printable :: "char \<Rightarrow> bool" where
  "printable c = (let n = (of_char c :: nat) in (32 \<le> n \<and> n < 127) \<or> (161 \<le> n \<and> n \<noteq> 173))"

definition repr_char :: "char \<Rightarrow> char \<Rightarrow> string" where
  "repr_char q c =
     (if c = q \<or> c = CHR 0x5C then [CHR 0x5C, c]
      else if c = CHR 0x09 then [CHR 0x5C, CHR ''t'']
      else if c = CHR 0x0A then [CHR 0x5C, CHR ''n'']
      else if c = CHR 0x0D then [CHR 0x5C, CHR ''r'']
      else if printable c then [c]
      else [CHR 0x5C, CHR ''x''] @ hex2 (of_char c))"

definition repr_str :: "string \<Rightarrow> string" where
  "repr_str s =
     (let q = (if CHR 0x27 \<in> set s \<and> CHR 0x22 \<notin> set s then CHR 0x22 else CHR 0x27)
      in q # concat (map (repr_char q) s) @ [q])"

fun py_repr :: "json \<Rightarrow> string" where
  "py_repr JNull = ''None''"
| "py_repr (JBool b) = (if b then ''True'' else ''False'')"
| "py_repr (JInt i) = str_int i"
| "py_repr (JString s) = repr_str s"
| "py_repr (JArray xs) = ''['' @ join '', '' (map py_repr xs) @ '']''"
| "py_repr (JObject kvs) =
     ''{'' @ join '', '' (map (\<lambda>(k, v). repr_str k @ '': '' @ py_repr v) kvs) @ ''}''"

text \<open>\<^verbatim>\<open>str(x)\<close>, which an f-string applies to the value it formats.\<close>

fun py_str :: "json \<Rightarrow> string" where
  "py_str (JString s) = s"
| "py_str j = py_repr j"

subsection \<open>Operations on values\<close>

fun type_name :: "json \<Rightarrow> string" where
  "type_name JNull = ''NoneType''"
| "type_name (JBool b) = ''bool''"
| "type_name (JInt i) = ''int''"
| "type_name (JString s) = ''str''"
| "type_name (JArray xs) = ''list''"
| "type_name (JObject kvs) = ''dict''"

text \<open>Truth value of a value, as \<^verbatim>\<open>if x\<close> and \<^verbatim>\<open>not x\<close> take it.\<close>

fun truthy :: "json \<Rightarrow> bool" where
  "truthy JNull = False"
| "truthy (JBool b) = b"
| "truthy (JInt i) = (i \<noteq> 0)"
| "truthy (JString s) = (s \<noteq> [])"
| "truthy (JArray xs) = (xs \<noteq> [])"
| "truthy (JObject kvs) = (kvs \<noteq> [])"

text \<open>\<^verbatim>\<open>d.get(k, default)\<close> on a dict.\<close>

definition dict_get :: "dict \<Rightarrow> string \<Rightarrow> json \<Rightarrow> json" where
  "dict_get d k dflt = (case map_of d k of None \<Rightarrow> dflt | Some v \<Rightarrow> v)"

text \<open>\<^verbatim>\<open>x.get(k, default)\<close> on any value: only a dict has the method.\<close>

fun py_get :: "json \<Rightarrow> string \<Rightarrow> json \<Rightarrow> exn + json" where
  "py_get (JObject d) k dflt = Inr (dict_get d k dflt)"
| "py_get x k dflt =
     Inl (Exn AttributeError (quoted (type_name x) @ '' object has no attribute '' @ quoted ''get''))"

text \<open>\<^verbatim>\<open>x[k]\<close> with a string key.\<close>

fun py_item :: "json \<Rightarrow> string \<Rightarrow> exn + json" where
  "py_item (JObject d) k =
     (case map_of d k of None \<Rightarrow> Inl (Exn KeyError (repr_str k)) | Some v \<Rightarrow> Inr v)"
| "py_item (JArray xs) k =
     Inl (Exn TypeError ''list indices must be integers or slices, not str'')"
| "py_item (JString s) k =
     Inl (Exn TypeError (''string indices must be integers, not '' @ quoted ''str''))"
| "py_item x k = Inl (Exn TypeError (quoted (type_name x) @ '' object is not subscriptable''))"

text \<open>
  The items \<^verbatim>\<open>list.extend(x)\<close> appends: the elements of a list, the keys of a dict,
  the characters of a string; anything else is not iterable.
\<close>

fun py_iter :: "json \<Rightarrow> exn + json list" where
  "py_iter (JArray xs) = Inr xs"
| "py_iter (JObject d) = Inr (map (\<lambda>(k, v). JString k) d)"
| "py_iter (JString s) = Inr (map (\<lambda>c. JString [c]) s)"
| "py_iter x = Inl (Exn TypeError (quoted (type_name x) @ '' object is not iterable''))"

text \<open>\<^verbatim>\<open>n >= x\<close> for an integer \<open>n\<close>: a bool counts as 0 or 1.\<close>

fun py_ge :: "int \<Rightarrow> json \<Rightarrow> exn + bool" where
  "py_ge n (JInt i) = Inr (n \<ge> i)"
| "py_ge n (JBool b) = Inr (n \<ge> (if b then 1 else 0))"
| "py_ge n x =
     Inl (Exn TypeError (quoted ''>='' @ '' not supported between instances of '' @ quoted ''int''
                         @ '' and '' @ quoted (type_name x)))"

section \<open>Console\<close>

text \<open>
  \<^verbatim>\<open>print(line)\<close> writes to the standard output of the process, and it can raise: the
  stream encodes the text, and a character its encoding has no code for makes the write
  raise \<^verbatim>\<open>UnicodeEncodeError\<close> (a letter with an accent on an ASCII stream, a lone
  surrogate on any stream). A console says for every line whether it is written
  (\<open>None\<close>) or which exception the write raises; an exception of \<^verbatim>\<open>print\<close> is an
  exception of the statement that prints. The console is a parameter of the functions
  that print, so what is proved about them holds for every stream; the examples run on
  an ASCII stream, since the strings of the model hold no surrogate.
\<close>

type_synonym console = "string \<Rightarrow> exn option"

definition print :: "console \<Rightarrow> string \<Rightarrow> exn + unit" where
  "print out line = (case out line of None \<Rightarrow> Inr () | Some e \<Rightarrow> Inl e)"

text \<open>
  One statement after the other: the second runs on what the first returned, unless the
  first raised.
\<close>

definition then_do :: "exn + 'a \<Rightarrow> ('a \<Rightarrow> exn + 'b) \<Rightarrow> exn + 'b" where
  "then_do r f = (case r of Inl e \<Rightarrow> Inl e | Inr x \<Rightarrow> f x)"

section \<open>HTTP\<close>

text \<open>
  What a call of the \<^verbatim>\<open>requests\<close> library gives back: it raises, or it returns a
  response. \<open>body_json\<close> is what \<^verbatim>\<open>response.json()\<close> does on that response: the parsed
  body, or the exception of a body that is not JSON.
\<close>

record http_response =
  status_code :: nat
  reason :: string
  url :: string
  body_text :: string
  body_json :: "exn + json"

section \<open>Resource Fetcher: the pagination loop\<close>

definition per_page :: int where
  "per_page = 50"

text \<open>
  \<^verbatim>\<open>request_params = {'page': page, 'per_page': per_page}\<close>, updated with the caller's
  \<^verbatim>\<open>params\<close> (\<^verbatim>\<open>None\<close> and the empty dict are both \<open>[]\<close>).
\<close>

definition request_params :: "dict \<Rightarrow> int \<Rightarrow> dict" where
  "request_params params page =
     fold (\<lambda>(k, v). AList.update k v) params
       [(''page'', JInt page), (''per_page'', JInt per_page)]"

text \<open>
  One turn of the \<^verbatim>\<open>while True\<close> loop of \<^verbatim>\<open>_paginated_fetch\<close>, given what
  \<^verbatim>\<open>requests.get\<close> did: the exception raised, or the extended \<^verbatim>\<open>all_results\<close> and
  whether the loop breaks.
\<close>

definition fetch_page :: "(exn + http_response) \<Rightarrow> int \<Rightarrow> json list \<Rightarrow> exn + (json list \<times> bool)" where
  "fetch_page got page all_results =
     (case got of
        Inl e \<Rightarrow> Inl e
      | Inr response \<Rightarrow>
          if status_code response \<noteq> 200
          then Inl (Exn Exception (''API error: '' @ decimal (status_code response) @ '' - ''
                                   @ body_text response))
          else
            (case body_json response of
               Inl e \<Rightarrow> Inl e
             | Inr data \<Rightarrow>
                 (case py_item data ''success'' of
                    Inl e \<Rightarrow> Inl e
                  | Inr success \<Rightarrow>
                      if \<not> truthy success
                      then
                        (case py_get data ''errors'' (JString ''Unknown error'') of
                           Inl e \<Rightarrow> Inl e
                         | Inr errs \<Rightarrow> Inl (Exn Exception (''API request failed: '' @ py_str errs)))
                      else
                        (case py_item data ''result'' of
                           Inl e \<Rightarrow> Inl e
                         | Inr result \<Rightarrow>
                             (case py_iter result of
                                Inl e \<Rightarrow> Inl e
                              | Inr items \<Rightarrow>
                                  (case py_get data ''result_info'' (JObject []) of
                                     Inl e \<Rightarrow> Inl e
                                   | Inr result_info \<Rightarrow>
                                       (case py_get result_info ''total_count'' (JInt 0) of
                                          Inl e \<Rightarrow> Inl e
                                        | Inr total_count \<Rightarrow>
                                            (case py_ge (page * per_page) total_count of
                                               Inl e \<Rightarrow> Inl e
                                             | Inr stop \<Rightarrow> Inr (all_results @ items, stop)))))))))"

text \<open>
  The loop. The provider answers each request from its parameters; \<open>sent\<close> collects
  the requests made, in order. The loop has no bound of its own (a provider whose
  \<^verbatim>\<open>total_count\<close> grows with every page keeps it running), so not returning is the
  value \<open>None\<close>.
\<close>

partial_function (option) fetch_loop ::
  "(dict \<Rightarrow> exn + http_response) \<Rightarrow> dict \<Rightarrow> int \<Rightarrow> json list \<Rightarrow> dict list
     \<Rightarrow> (dict list \<times> (exn + json list)) option" where
  "fetch_loop provider params page all_results sent =
     (let rp = request_params params page in
      case fetch_page (provider rp) page all_results of
        Inl e \<Rightarrow> Some (sent @ [rp], Inl e)
      | Inr (all_results', stop) \<Rightarrow>
          if stop then Some (sent @ [rp], Inr all_results')
          else fetch_loop provider params (page + 1) all_results' (sent @ [rp]))"

definition paginated_fetch ::
  "(dict \<Rightarrow> exn + http_response) \<Rightarrow> dict \<Rightarrow> (dict list \<times> (exn + json list)) option" where
  "paginated_fetch provider params = fetch_loop provider params 1 [] []"

text \<open>
  A provider that serves \<open>items\<close> in pages: page \<open>p\<close> holds the next \<open>per_page\<close> items
  that are left (all of them on the last page), and every response reports
  \<^verbatim>\<open>total_count = len(items)\<close>. \<open>page_count n\<close> is the number of pages the loop needs
  for \<open>n\<close> items; only those pages are constrained.
\<close>

definition page_count :: "nat \<Rightarrow> nat" where
  "page_count n = max 1 ((n + nat per_page - 1) div nat per_page)"

definition page_items :: "json list \<Rightarrow> nat \<Rightarrow> json list" where
  "page_items items p = take (nat per_page) (drop (nat per_page * (p - 1)) items)"

definition serves :: "(dict \<Rightarrow> exn + http_response) \<Rightarrow> dict \<Rightarrow> json list \<Rightarrow> bool" where
  "serves provider params items \<longleftrightarrow>
     (\<forall>p. 1 \<le> p \<and> p \<le> page_count (length items) \<longrightarrow>
        (\<exists>response data info success.
           provider (request_params params (int p)) = Inr response \<and>
           status_code response = 200 \<and>
           body_json response = Inr (JObject data) \<and>
           map_of data ''success'' = Some success \<and> truthy success \<and>
           map_of data ''result'' = Some (JArray (page_items items p)) \<and>
           map_of data ''result_info'' = Some (JObject info) \<and>
           map_of info ''total_count'' = Some (JInt (int (length items)))))"

text \<open>A provider whose first response carries the items \<open>xs\<close> and no \<^verbatim>\<open>result_info\<close>.\<close>

definition serves_without_info ::
  "(dict \<Rightarrow> exn + http_response) \<Rightarrow> dict \<Rightarrow> json list \<Rightarrow> bool" where
  "serves_without_info provider params xs \<longleftrightarrow>
     (\<exists>response data success.
        provider (request_params params 1) = Inr response \<and>
        status_code response = 200 \<and>
        body_json response = Inr (JObject data) \<and>
        map_of data ''success'' = Some success \<and> truthy success \<and>
        map_of data ''result'' = Some (JArray xs) \<and>
        map_of data ''result_info'' = None)"

text \<open>Two such providers, to run the loop on.\<close>

definition ok_response :: "dict \<Rightarrow> http_response" where
  "ok_response data =
     \<lparr>status_code = 200, reason = ''OK'', url = ''https://api.cloudflare.com/client/v4/zones'',
      body_text = [], body_json = Inr (JObject data)\<rparr>"

definition paged_provider :: "json list \<Rightarrow> dict \<Rightarrow> exn + http_response" where
  "paged_provider items rp =
     (case map_of rp ''page'' of
        Some (JInt p) \<Rightarrow>
          Inr (ok_response
                 [(''success'', JBool True),
                  (''result'', JArray (page_items items (nat p))),
                  (''result_info'', JObject [(''total_count'', JInt (int (length items)))])])
      | _ \<Rightarrow> Inl (Exn ConnectionError ''no page requested''))"

definition bare_provider :: "json list \<Rightarrow> dict \<Rightarrow> exn + http_response" where
  "bare_provider xs rp = Inr (ok_response [(''success'', JBool True), (''result'', JArray xs)])"

definition hundred :: "json list" where
  "hundred = map (\<lambda>i. JInt (int i)) [0..<100]"

section \<open>Resource Fetcher: all kinds\<close>

text \<open>
  \<^verbatim>\<open>get_all_resources\<close> calls the six getters in turn, each in a \<^verbatim>\<open>try\<close> statement of its
  own whose handler prints one line. What a getter call does is given from outside: it
  returns a list of resource dicts or raises an exception (a subclass of
  \<^verbatim>\<open>Exception\<close>). The function is modelled with the lines it prints on the console
  \<open>out\<close>: it returns the dict and leaves these lines on the console, or it raises what a
  \<^verbatim>\<open>print\<close> in one of the handlers raised.
\<close>

datatype resource_kind = Domains | Workers | Pages | R2Buckets | KVNamespaces | DurableObjects

type_synonym getters = "resource_kind \<Rightarrow> exn + dict list"

type_synonym resources = "(string \<times> dict list) list"

text \<open>
  \<^verbatim>\<open>try: resources[key] = getter() except Exception as e: print(f"Error fetching {label}: {e}")\<close>
  as a statement on the dict \<open>resources\<close> and the printed lines. The handler's \<^verbatim>\<open>print\<close>
  is not inside a \<^verbatim>\<open>try\<close> of its own, so what it raises is an exception of the
  statement (\<open>Inl\<close>), and the statements after it are not run.
\<close>

definition try_assign ::
  "console \<Rightarrow> string \<Rightarrow> string \<Rightarrow> exn + dict list \<Rightarrow> resources \<times> string list
     \<Rightarrow> exn + resources \<times> string list" where
  "try_assign out key label got = (\<lambda>(resources, printed).
     case got of
       Inr xs \<Rightarrow> Inr (AList.update key xs resources, printed)
     | Inl e \<Rightarrow>
         then_do (print out (''Error fetching '' @ label @ '': '' @ str_exn e)) (\<lambda>u.
           Inr (resources, printed @ [''Error fetching '' @ label @ '': '' @ str_exn e])))"

definition get_all_resources :: "console \<Rightarrow> getters \<Rightarrow> exn + resources \<times> string list" where
  "get_all_resources out g =
     then_do (Inr ([(''domains'', []), (''workers'', []), (''pages'', []), (''r2_buckets'', []),
                    (''kv_namespaces'', []), (''durable_objects'', [])], [])) (\<lambda>s0.
     then_do (try_assign out ''domains'' ''domains'' (g Domains) s0) (\<lambda>s1.
     then_do (try_assign out ''workers'' ''workers'' (g Workers) s1) (\<lambda>s2.
     then_do (try_assign out ''pages'' ''pages'' (g Pages) s2) (\<lambda>s3.
     then_do (try_assign out ''r2_buckets'' ''R2 buckets'' (g R2Buckets) s3) (\<lambda>s4.
     then_do (try_assign out ''kv_namespaces'' ''KV namespaces'' (g KVNamespaces) s4) (\<lambda>s5.
     then_do (try_assign out ''durable_objects'' ''Durable Objects'' (g DurableObjects) s5) (\<lambda>s6.
     Inr s6)))))))"

text \<open>
  The key under which \<^verbatim>\<open>get_all_resources\<close> stores a kind, and the name of the kind in
  the line it prints.
\<close>

fun kind_key :: "resource_kind \<Rightarrow> string" where
  "kind_key Domains = ''domains''"
| "kind_key Workers = ''workers''"
| "kind_key Pages = ''pages''"
| "kind_key R2Buckets = ''r2_buckets''"
| "kind_key KVNamespaces = ''kv_namespaces''"
| "kind_key DurableObjects = ''durable_objects''"

fun kind_label :: "resource_kind \<Rightarrow> string" where
  "kind_label Domains = ''domains''"
| "kind_label Workers = ''workers''"
| "kind_label Pages = ''pages''"
| "kind_label R2Buckets = ''R2 buckets''"
| "kind_label KVNamespaces = ''KV namespaces''"
| "kind_label DurableObjects = ''Durable Objects''"

section \<open>JSON text\<close>

text \<open>
  \<^verbatim>\<open>json.dumps(x, indent=...)\<close> with the defaults otherwise (\<^verbatim>\<open>ensure_ascii=True\<close>):
  every character outside the printable ASCII range is written \<^verbatim>\<open>\uXXXX\<close>. Without
  \<^verbatim>\<open>indent\<close> the items are separated by \<^verbatim>\<open>", "\<close> on one line; with \<^verbatim>\<open>indent=n\<close> every
  item of a non-empty list or dict starts a new line, indented by \<open>n\<close> spaces per level,
  and the closing bracket is on a line of its own.
\<close>

definition json_escape :: "char \<Rightarrow> string" where
  "json_escape c =
     (if c = CHR 0x22 then [CHR 0x5C, CHR 0x22]
      else if c = CHR 0x5C then [CHR 0x5C, CHR 0x5C]
      else if c = CHR 0x0A then [CHR 0x5C, CHR ''n'']
      else if c = CHR 0x0D then [CHR 0x5C, CHR ''r'']
      else if c = CHR 0x09 then [CHR 0x5C, CHR ''t'']
      else if c = CHR 0x08 then [CHR 0x5C, CHR ''b'']
      else if c = CHR 0x0C then [CHR 0x5C, CHR ''f'']
      else if 32 \<le> (of_char c :: nat) \<and> (of_char c :: nat) \<le> 126 then [c]
      else [CHR 0x5C, CHR ''u'', CHR ''0'', CHR ''0''] @ hex2 (of_char c))"

definition json_string :: "string \<Rightarrow> string" where
  "json_string s = CHR 0x22 # concat (map json_escape s) @ [CHR 0x22]"

definition newline_indent :: "nat option \<Rightarrow> nat \<Rightarrow> string" where
  "newline_indent ind level =
     (case ind of None \<Rightarrow> [] | Some n \<Rightarrow> CHR 0x0A # replicate (n * level) CHR '' '')"

definition item_separator :: "nat option \<Rightarrow> string" where
  "item_separator ind = (case ind of None \<Rightarrow> '', '' | Some n \<Rightarrow> '','')"

fun encode :: "nat option \<Rightarrow> nat \<Rightarrow> json \<Rightarrow> string" where
  "encode ind level JNull = ''null''"
| "encode ind level (JBool b) = (if b then ''true'' else ''false'')"
| "encode ind level (JInt i) = str_int i"
| "encode ind level (JString s) = json_string s"
| "encode ind level (JArray xs) =
     (if xs = [] then ''[]''
      else ''['' @ newline_indent ind (Suc level)
           @ join (item_separator ind @ newline_indent ind (Suc level))
                (map (encode ind (Suc level)) xs)
           @ newline_indent ind level @ '']'')"
| "encode ind level (JObject kvs) =
     (if kvs = [] then ''{}''
      else ''{'' @ newline_indent ind (Suc level)
           @ join (item_separator ind @ newline_indent ind (Suc level))
                (map (\<lambda>(k, v). json_string k @ '': '' @ encode ind (Suc level) v) kvs)
           @ newline_indent ind level @ ''}'')"

definition dumps :: "nat option \<Rightarrow> json \<Rightarrow> string" where
  "dumps ind j = encode ind 0 j"

section \<open>Registry Client\<close>

text \<open>
  A request the client's session sends, and the network: what the registry does with
  a request can depend on everything sent before, so the network answers the list of
  all requests so far, the newest last. \<open>session_send\<close> sends one request and records it.
\<close>

record http_request =
  verb :: string
  request_url :: string
  headers :: "(string \<times> string) list"
  payload :: "json option"

type_synonym network = "http_request list \<Rightarrow> exn + http_response"

record registry_updater =
  api_url :: string
  api_key :: "string option"

fun rstrip_slash :: "string \<Rightarrow> string" where
  "rstrip_slash s = rev (dropWhile (\<lambda>c. c = CHR ''/'') (rev s))"

text \<open>\<^verbatim>\<open>RegistryUpdater(api_url, api_key)\<close>; the default URL is the one of the source.\<close>

definition RegistryUpdater :: "string \<Rightarrow> string option \<Rightarrow> registry_updater" where
  "RegistryUpdater u k = \<lparr>api_url = rstrip_slash u, api_key = k\<rparr>"

definition default_api_url :: string where
  "default_api_url = ''https://chitty.cc/registry''"

text \<open>The session's headers: set only when \<^verbatim>\<open>api_key\<close> is neither \<^verbatim>\<open>None\<close> nor empty.\<close>

definition session_headers :: "registry_updater \<Rightarrow> (string \<times> string) list" where
  "session_headers c =
     (case api_key c of
        None \<Rightarrow> []
      | Some k \<Rightarrow>
          if k = [] then []
          else [(''Authorization'', ''Bearer '' @ k), (''Content-Type'', ''application/json'')])"

definition session_send ::
  "network \<Rightarrow> http_request \<Rightarrow> http_request list \<Rightarrow> (exn + http_response) \<times> http_request list" where
  "session_send net rq hist = (net (hist @ [rq]), hist @ [rq])"

text \<open>
  \<^verbatim>\<open>response.raise_for_status()\<close>: an \<^verbatim>\<open>HTTPError\<close> for a status from 400 to 599.
\<close>

definition raise_for_status :: "http_response \<Rightarrow> exn option" where
  "raise_for_status r =
     (if 400 \<le> status_code r \<and> status_code r < 500
      then Some (Exn HTTPError (decimal (status_code r) @ '' Client Error: '' @ reason r
                                @ '' for url: '' @ url r))
      else if 500 \<le> status_code r \<and> status_code r < 600
      then Some (Exn HTTPError (decimal (status_code r) @ '' Server Error: '' @ reason r
                                @ '' for url: '' @ url r))
      else None)"

text \<open>
  The body of every \<^verbatim>\<open>try\<close> of the client, after the request is sent:
  \<^verbatim>\<open>response.raise_for_status(); return response.json()\<close>.
\<close>

definition checked_json :: "exn + http_response \<Rightarrow> exn + json" where
  "checked_json got =
     (case got of
        Inl e \<Rightarrow> Inl e
      | Inr response \<Rightarrow>
          (case raise_for_status response of
             Some e \<Rightarrow> Inl e
           | None \<Rightarrow> body_json response))"

text \<open>
  \<^verbatim>\<open>except requests.exceptions.RequestException as e: return {...}\<close>: the handler's
  dict for an exception of that class, any other exception goes on to the caller.
\<close>

definition except_RequestException :: "exn + json \<Rightarrow> (exn \<Rightarrow> json) \<Rightarrow> exn + json" where
  "except_RequestException tried handler =
     (case tried of
        Inr v \<Rightarrow> Inr v
      | Inl e \<Rightarrow> if is_RequestException e then Inr (handler e) else Inl e)"

definition failure :: "exn \<Rightarrow> dict \<Rightarrow> json" where
  "failure e ident =
     JObject ([(''success'', JBool False), (''error'', JString (str_exn e))] @ ident)"

definition resource_entry :: "dict \<Rightarrow> dict" where
  "resource_entry r =
     [(''id'', dict_get r ''id'' JNull),
      (''name'', dict_get r ''name'' JNull),
      (''type'', dict_get r ''resource_type'' JNull),
      (''provider'', JString ''cloudflare''),
      (''metadata'', JObject
         [(''status'', dict_get r ''status'' JNull),
          (''created_on'', dict_get r ''created_on'' JNull),
          (''modified_on'', dict_get r ''modified_on'' JNull),
          (''details'', JObject r)])]"

definition post :: "registry_updater \<Rightarrow> string \<Rightarrow> json \<Rightarrow> http_request" where
  "post c endpoint body =
     \<lparr>verb = ''POST'', request_url = endpoint, headers = session_headers c, payload = Some body\<rparr>"

definition register_request :: "registry_updater \<Rightarrow> string \<Rightarrow> dict \<Rightarrow> http_request" where
  "register_request c utcnow resource =
     post c (api_url c @ ''/api/resources'')
       (JObject (resource_entry resource @ [(''timestamp'', JString utcnow)]))"

definition register_resource ::
  "registry_updater \<Rightarrow> network \<Rightarrow> string \<Rightarrow> dict \<Rightarrow> http_request list
     \<Rightarrow> (exn + json) \<times> http_request list" where
  "register_resource c net utcnow resource hist =
     (case session_send net (register_request c utcnow resource) hist of
        (got, hist') \<Rightarrow>
          (except_RequestException (checked_json got)
             (\<lambda>e. failure e [(''resource'', dict_get resource ''name'' JNull)]), hist'))"

definition update_request :: "registry_updater \<Rightarrow> string \<Rightarrow> json \<Rightarrow> dict \<Rightarrow> http_request" where
  "update_request c utcnow resource_id updates =
     \<lparr>verb = ''PATCH'', request_url = api_url c @ ''/api/resources/'' @ py_str resource_id,
      headers = session_headers c,
      payload = Some (JObject [(''updates'', JObject updates), (''timestamp'', JString utcnow)])\<rparr>"

definition update_resource ::
  "registry_updater \<Rightarrow> network \<Rightarrow> string \<Rightarrow> json \<Rightarrow> dict \<Rightarrow> http_request list
     \<Rightarrow> (exn + json) \<times> http_request list" where
  "update_resource c net utcnow resource_id updates hist =
     (case session_send net (update_request c utcnow resource_id updates) hist of
        (got, hist') \<Rightarrow>
          (except_RequestException (checked_json got)
             (\<lambda>e. failure e [(''resource_id'', resource_id)]), hist'))"

definition delete_request :: "registry_updater \<Rightarrow> json \<Rightarrow> http_request" where
  "delete_request c resource_id =
     \<lparr>verb = ''DELETE'', request_url = api_url c @ ''/api/resources/'' @ py_str resource_id,
      headers = session_headers c, payload = None\<rparr>"

definition delete_resource ::
  "registry_updater \<Rightarrow> network \<Rightarrow> json \<Rightarrow> http_request list
     \<Rightarrow> (exn + json) \<times> http_request list" where
  "delete_resource c net resource_id hist =
     (case session_send net (delete_request c resource_id) hist of
        (got, hist') \<Rightarrow>
          (except_RequestException (checked_json got)
             (\<lambda>e. failure e [(''resource_id'', resource_id)]), hist'))"

definition bulk_request :: "registry_updater \<Rightarrow> string \<Rightarrow> dict list \<Rightarrow> http_request" where
  "bulk_request c utcnow resources =
     post c (api_url c @ ''/api/resources/bulk'')
       (JObject [(''resources'', JArray (map (\<lambda>r. JObject (resource_entry r)) resources)),
                 (''timestamp'', JString utcnow)])"

definition bulk_register ::
  "registry_updater \<Rightarrow> network \<Rightarrow> string \<Rightarrow> dict list \<Rightarrow> http_request list
     \<Rightarrow> (exn + json) \<times> http_request list" where
  "bulk_register c net utcnow resources hist =
     (case session_send net (bulk_request c utcnow resources) hist of
        (got, hist') \<Rightarrow>
          (except_RequestException (checked_json got)
             (\<lambda>e. failure e [(''count'', JInt (int (length resources)))]), hist'))"

definition sync_endpoint :: "registry_updater \<Rightarrow> string \<Rightarrow> string" where
  "sync_endpoint c resource_type = api_url c @ ''/api/sync/'' @ resource_type"

definition sync_request :: "registry_updater \<Rightarrow> string \<Rightarrow> string \<Rightarrow> dict list \<Rightarrow> http_request" where
  "sync_request c utcnow resource_type resources =
     post c (sync_endpoint c resource_type)
       (JObject [(''provider'', JString ''cloudflare''),
                 (''resources'', JArray (map JObject resources)),
                 (''sync_mode'', JString ''full''),
                 (''timestamp'', JString utcnow)])"

definition sync_resources ::
  "registry_updater \<Rightarrow> network \<Rightarrow> string \<Rightarrow> string \<Rightarrow> dict list \<Rightarrow> http_request list
     \<Rightarrow> (exn + json) \<times> http_request list" where
  "sync_resources c net utcnow resource_type resources hist =
     (case session_send net (sync_request c utcnow resource_type resources) hist of
        (got, hist') \<Rightarrow>
          (except_RequestException (checked_json got)
             (\<lambda>e. failure e [(''resource_type'', JString resource_type),
                              (''count'', JInt (int (length resources)))]), hist'))"

text \<open>\<^verbatim>\<open>health_check\<close>: a bare \<^verbatim>\<open>except\<close> turns every exception into \<^verbatim>\<open>False\<close>.\<close>

definition health_request :: "registry_updater \<Rightarrow> http_request" where
  "health_request c =
     \<lparr>verb = ''GET'', request_url = api_url c @ ''/health'', headers = session_headers c,
      payload = None\<rparr>"

definition health_check ::
  "registry_updater \<Rightarrow> network \<Rightarrow> http_request list \<Rightarrow> bool \<times> http_request list" where
  "health_check c net hist =
     (case session_send net (health_request c) hist of
        (got, hist') \<Rightarrow>
          ((case got of Inl e \<Rightarrow> False | Inr response \<Rightarrow> status_code response = 200), hist'))"

section \<open>Sync Orchestrator\<close>

text \<open>
  The model of \<^verbatim>\<open>sync_all_resources\<close> starts when the two clients are constructed. It
  keeps what a run returns, sends to the registry and writes to files. The console is not
  part of that. The orchestrator is modelled on a console that writes every line,
  \<open>working_console\<close>: there the progress lines the orchestrator prints itself change
  nothing and are left out, and the lines \<^verbatim>\<open>get_all_resources\<close> printed stay behind. (A
  run whose standard output raises ends with that exception: it returns no status and
  no summary.) Every reading of a clock gives the text of the \<open>clock\<close> record:
  \<^verbatim>\<open>datetime.now().isoformat()\<close> and \<^verbatim>\<open>datetime.utcnow().isoformat()\<close>.
\<close>

definition working_console :: console where
  "working_console line = None"

record clock =
  now_iso :: string
  utcnow_iso :: string

record summary =
  timestamp :: string
  synced :: "(string \<times> nat) list"
  errors :: "(string \<times> json) list"
  total :: nat

definition available_types :: "(string \<times> string) list" where
  "available_types =
     [(''domains'', ''domain''), (''workers'', ''worker''), (''pages'', ''pages''),
      (''r2_buckets'', ''r2_bucket''), (''kv_namespaces'', ''kv_namespace''),
      (''durable_objects'', ''durable_object'')]"

text \<open>
  The \<^verbatim>\<open>try\<close> block of the loop body: the call of \<^verbatim>\<open>registry.sync_resources\<close> and the
  test of \<^verbatim>\<open>result.get('success', False)\<close>, up to the entry it is about to write.
\<close>

datatype sync_verdict = Synced | Failed json

definition sync_attempt ::
  "registry_updater \<Rightarrow> network \<Rightarrow> string \<Rightarrow> string \<Rightarrow> dict list \<Rightarrow> http_request list
     \<Rightarrow> (exn + sync_verdict) \<times> http_request list" where
  "sync_attempt c net utcnow resource_type resources hist =
     (case sync_resources c net utcnow resource_type resources hist of
        (r, hist') \<Rightarrow>
          (then_do r (\<lambda>result.
           then_do (py_get result ''success'' (JBool False)) (\<lambda>ok.
           if truthy ok then Inr Synced
           else then_do (py_get result ''error'' JNull) (\<lambda>err. Inr (Failed err)))), hist'))"

text \<open>
  One turn of \<^verbatim>\<open>for resource_key in types_to_sync\<close>, on the summary and the list of
  requests sent so far. \<^verbatim>\<open>except Exception as e\<close> stores \<^verbatim>\<open>str(e)\<close>.
\<close>

definition sync_kind ::
  "registry_updater \<Rightarrow> network \<Rightarrow> string \<Rightarrow> resources \<Rightarrow> string
     \<Rightarrow> summary \<times> http_request list \<Rightarrow> summary \<times> http_request list" where
  "sync_kind c net utcnow all_resources resource_key = (\<lambda>(sm, hist).
     case map_of available_types resource_key of
       None \<Rightarrow> (sm, hist)
     | Some resource_type \<Rightarrow>
         let resources = (case map_of all_resources resource_key of None \<Rightarrow> [] | Some xs \<Rightarrow> xs)
         in if resources = [] then (sm, hist)
            else
              (case sync_attempt c net utcnow resource_type resources hist of
                 (Inr Synced, hist') \<Rightarrow>
                   (sm\<lparr>synced := AList.update resource_key (length resources) (synced sm)\<rparr>, hist')
               | (Inr (Failed err), hist') \<Rightarrow>
                   (sm\<lparr>errors := AList.update resource_key err (errors sm)\<rparr>, hist')
               | (Inl e, hist') \<Rightarrow>
                   (sm\<lparr>errors := AList.update resource_key (JString (str_exn e)) (errors sm)\<rparr>,
                    hist')))"

definition summary_json :: "summary \<Rightarrow> json" where
  "summary_json sm =
     JObject [(''timestamp'', JString (timestamp sm)),
              (''synced'', JObject (map (\<lambda>(k, n). (k, JInt (int n))) (synced sm))),
              (''errors'', JObject (errors sm)),
              (''total'', JInt (int (total sm)))]"

definition resources_json :: "resources \<Rightarrow> json" where
  "resources_json rs = JObject (map (\<lambda>(k, xs). (k, JArray (map JObject xs))) rs)"

text \<open>
  What a run leaves behind: the value it returns (the process exit status), the summary,
  the requests sent to the registry, and the two files.
\<close>

record run =
  exit_status :: nat
  run_summary :: summary
  requests_sent :: "http_request list"
  sync_all_log :: string
  full_sync_snapshot :: string

definition types_to_sync :: "string list option \<Rightarrow> string list" where
  "types_to_sync resource_types =
     (case resource_types of
        None \<Rightarrow> map fst available_types
      | Some ts \<Rightarrow> if ts = [] then map fst available_types else ts)"

definition sync_all_resources ::
  "getters \<Rightarrow> network \<Rightarrow> clock \<Rightarrow> string \<Rightarrow> string list option \<Rightarrow> exn + run" where
  "sync_all_resources g net ck log_before resource_types =
     (let registry = RegistryUpdater default_api_url None in
      case health_check registry net [] of
        (healthy, hist0) \<Rightarrow>
          then_do (get_all_resources working_console g) (\<lambda>(all_resources, printed).
            case fold (sync_kind registry net (utcnow_iso ck) all_resources)
                   (types_to_sync resource_types)
                   (\<lparr>timestamp = now_iso ck, synced = [], errors = [], total = 0\<rparr>, hist0) of
              (sm1, hist1) \<Rightarrow>
                let sm = sm1\<lparr>total := sum_list (map snd (synced sm1))\<rparr>
                in Inr \<lparr>exit_status = (if errors sm = [] then 0 else 1),
                        run_summary = sm,
                        requests_sent = hist1,
                        sync_all_log = log_before @ dumps (Some 2) (summary_json sm) @ [CHR 0x0A],
                        full_sync_snapshot =
                          dumps (Some 2)
                            (JObject [(''timestamp'', JString (now_iso ck)),
                                      (''resources'', resources_json all_resources),
                                      (''summary'', summary_json sm)])\<rparr>))"

section \<open>Webhook Listener\<close>

text \<open>
  The process environment, and the two settings read from it when the module is
  loaded.
\<close>

type_synonym environ = "string \<Rightarrow> string option"

definition getenv :: "environ \<Rightarrow> string \<Rightarrow> string \<Rightarrow> string" where
  "getenv env name dflt = (case env name of None \<Rightarrow> dflt | Some v \<Rightarrow> v)"

definition WEBHOOK_SECRET :: "environ \<Rightarrow> string" where
  "WEBHOOK_SECRET env = getenv env ''CLOUDFLARE_WEBHOOK_SECRET'' ''your-webhook-secret''"

definition REGISTRY_API_KEY :: "environ \<Rightarrow> string" where
  "REGISTRY_API_KEY env = getenv env ''REGISTRY_API_KEY'' []"

text \<open>
  A request as Flask hands it to a view: the headers by name (header names are matched
  without regard to case, so a name stands for all its spellings) and the raw body.
  A view answers with a JSON body and a status; an exception that leaves the view makes
  Flask answer with its own 500 page.
\<close>

record flask_request =
  request_headers :: "string \<Rightarrow> string option"
  get_data :: string

definition headers_get :: "flask_request \<Rightarrow> string \<Rightarrow> string \<Rightarrow> string" where
  "headers_get rq name dflt = (case request_headers rq name of None \<Rightarrow> dflt | Some v \<Rightarrow> v)"

datatype response = JsonResponse nat json | InternalServerError

fun status_of :: "response \<Rightarrow> nat" where
  "status_of (JsonResponse n body) = n"
| "status_of InternalServerError = 500"

subsection \<open>Signature\<close>

text \<open>
  \<^verbatim>\<open>str.encode()\<close> (UTF-8) of a string of code points below 256, and the lower-case
  hexadecimal text of a digest. The keyed hash itself, HMAC-SHA256 of \<^verbatim>\<open>hashlib\<close> and
  \<^verbatim>\<open>hmac\<close>, is a parameter \<open>H\<close> of the model: key bytes and message bytes to digest
  bytes.
\<close>

definition encode_utf8 :: "string \<Rightarrow> string" where
  "encode_utf8 s =
     concat (map (\<lambda>c. let n = (of_char c :: nat)
                      in if n < 128 then [c]
                         else [char_of (192 + n div 64), char_of (128 + n mod 64)]) s)"

definition hexdigest :: "string \<Rightarrow> string" where
  "hexdigest d = concat (map (\<lambda>c. hex2 (of_char c)) d)"

text \<open>
  \<^verbatim>\<open>hmac.compare_digest(a, b)\<close> on two \<^verbatim>\<open>str\<close>: it compares them when both are ASCII
  and raises \<^verbatim>\<open>TypeError\<close> otherwise.
\<close>

definition is_ascii :: "string \<Rightarrow> bool" where
  "is_ascii s = list_all (\<lambda>c. (of_char c :: nat) < 128) s"

definition compare_digest :: "string \<Rightarrow> string \<Rightarrow> exn + bool" where
  "compare_digest a b =
     (if is_ascii a \<and> is_ascii b then Inr (a = b)
      else Inl (Exn TypeError ''comparing strings with non-ASCII characters is not supported''))"

definition verify_signature ::
  "(string \<Rightarrow> string \<Rightarrow> string) \<Rightarrow> environ \<Rightarrow> string \<Rightarrow> string \<Rightarrow> exn + bool" where
  "verify_signature H env body signature =
     (let expected_signature = hexdigest (H (encode_utf8 (WEBHOOK_SECRET env)) body)
      in compare_digest expected_signature signature)"

subsection \<open>The webhook view\<close>

definition event_mapping :: "(string \<times> (string \<times> string)) list" where
  "event_mapping =
     [(''zone.created'', (''domain'', ''create'')),
      (''zone.updated'', (''domain'', ''update'')),
      (''zone.deleted'', (''domain'', ''delete'')),
      (''worker.deployed'', (''worker'', ''update'')),
      (''worker.deleted'', (''worker'', ''delete'')),
      (''pages.project.created'', (''pages'', ''create'')),
      (''pages.deployment.started'', (''pages'', ''update'')),
      (''pages.project.deleted'', (''pages'', ''delete''))]"

text \<open>
  \<^verbatim>\<open>x in table\<close> followed by \<^verbatim>\<open>table[x]\<close> for a dict with string keys: a list or a dict
  cannot be hashed, any other value that is not a string is no key of the table.
\<close>

fun table_lookup :: "json \<Rightarrow> (string \<times> 'a) list \<Rightarrow> exn + 'a option" where
  "table_lookup (JString s) t = Inr (map_of t s)"
| "table_lookup (JArray xs) t = Inl (Exn TypeError (''unhashable type: '' @ quoted ''list''))"
| "table_lookup (JObject d) t = Inl (Exn TypeError (''unhashable type: '' @ quoted ''dict''))"
| "table_lookup x t = Inr None"

text \<open>\<^verbatim>\<open>data.get('event', {}).get('type', '')\<close>.\<close>

definition event_type_of :: "json \<Rightarrow> exn + json" where
  "event_type_of data =
     then_do (py_get data ''event'' (JObject [])) (\<lambda>event. py_get event ''type'' (JString []))"

text \<open>
  A thread started by the webhook view runs \<^verbatim>\<open>handle_resource_update\<close> on these three
  arguments. \<open>process_event\<close> is the \<^verbatim>\<open>try\<close> block of the view; \<^verbatim>\<open>json.loads\<close> is the
  parameter \<open>loads\<close>, and \<open>out\<close> is the console of the listener. The branch of an event
  type that is not in the table prints a line before it answers, inside the \<^verbatim>\<open>try\<close>.
\<close>

type_synonym update_task = "string \<times> json \<times> string"

definition process_event ::
  "console \<Rightarrow> (string \<Rightarrow> exn + json) \<Rightarrow> string \<Rightarrow> exn + (response \<times> update_task list)" where
  "process_event out loads body =
     then_do (loads body) (\<lambda>data.
     then_do (event_type_of data) (\<lambda>event_type.
     then_do (py_get data ''data'' (JObject [])) (\<lambda>resource_data.
     then_do (table_lookup event_type event_mapping) (\<lambda>found.
       case found of
         Some (resource_type, action) \<Rightarrow>
           Inr (JsonResponse 202
                  (JObject [(''status'', JString ''accepted''), (''event'', event_type),
                            (''resource_type'', JString resource_type),
                            (''action'', JString action)]),
                [(resource_type, resource_data, action)])
       | None \<Rightarrow>
           then_do (print out (''Unhandled event type: '' @ py_str event_type)) (\<lambda>u.
           Inr (JsonResponse 200
                  (JObject [(''status'', JString ''ignored''), (''event'', event_type)]),
                []))))))"

text \<open>
  The view. The handler of its \<^verbatim>\<open>try\<close> prints \<^verbatim>\<open>f"Error processing webhook: {e}"\<close> and
  answers 500; an exception of that \<^verbatim>\<open>print\<close>, like one of \<^verbatim>\<open>verify_signature\<close>, leaves
  the view.
\<close>

definition cloudflare_webhook ::
  "console \<Rightarrow> (string \<Rightarrow> string \<Rightarrow> string) \<Rightarrow> (string \<Rightarrow> exn + json) \<Rightarrow> environ
     \<Rightarrow> flask_request \<Rightarrow> response \<times> update_task list" where
  "cloudflare_webhook out H loads env rq =
     (let signature = headers_get rq ''X-Signature-256'' [];
          body = get_data rq
      in case verify_signature H env body signature of
           Inl e \<Rightarrow> (InternalServerError, [])
         | Inr valid \<Rightarrow>
             if \<not> valid
             then (JsonResponse 403 (JObject [(''error'', JString ''Invalid signature'')]), [])
             else
               (case process_event out loads body of
                  Inl e \<Rightarrow>
                    (case print out (''Error processing webhook: '' @ str_exn e) of
                       Inl e' \<Rightarrow> (InternalServerError, [])
                     | Inr u \<Rightarrow>
                         (JsonResponse 500 (JObject [(''error'', JString ''Processing failed'')]),
                          []))
                | Inr answer \<Rightarrow> answer))"

subsection \<open>The background task\<close>

text \<open>
  What a background task can change: the requests the registry has received and the
  file \<^verbatim>\<open>webhook_events.log\<close>. \<^verbatim>\<open>except Exception\<close> around the whole body only prints,
  so an exception leaves the file as it was; that holds for the progress line too, which
  is printed after the registry call and before the file is opened (\<open>log_event\<close> is
  these two steps, which follow both branches). \<^verbatim>\<open>action.upper()\<close> is taken on the three
  action names, which are lower-case ASCII letters.
\<close>

definition upper :: "string \<Rightarrow> string" where
  "upper s = map (\<lambda>c. let n = (of_char c :: nat)
                       in if 97 \<le> n \<and> n \<le> 122 then char_of (n - 32) else c) s"

definition progress_line :: "string \<Rightarrow> string \<Rightarrow> string \<Rightarrow> dict \<Rightarrow> string" where
  "progress_line now action resource_type resource_data =
     ''['' @ now @ ''] '' @ upper action @ '' '' @ resource_type @ '': ''
       @ py_str (dict_get resource_data ''name'' (dict_get resource_data ''id'' JNull))"

record world =
  registry_requests :: "http_request list"
  webhook_events_log :: string

definition event_line :: "string \<Rightarrow> string \<Rightarrow> string \<Rightarrow> dict \<Rightarrow> json \<Rightarrow> string" where
  "event_line now action resource_type resource_data result =
     dumps None
       (JObject [(''timestamp'', JString now), (''action'', JString action),
                 (''resource_type'', JString resource_type),
                 (''resource_id'', dict_get resource_data ''id'' JNull),
                 (''result'', result)])
     @ [CHR 0x0A]"

definition log_event ::
  "console \<Rightarrow> clock \<Rightarrow> string \<Rightarrow> string \<Rightarrow> dict \<Rightarrow> json \<Rightarrow> http_request list \<Rightarrow> world
     \<Rightarrow> world" where
  "log_event out ck action resource_type d result hist' w =
     (case print out (progress_line (now_iso ck) action resource_type d) of
        Inl e \<Rightarrow> w\<lparr>registry_requests := hist'\<rparr>
      | Inr u \<Rightarrow>
          \<lparr>registry_requests = hist',
           webhook_events_log = webhook_events_log w
             @ event_line (now_iso ck) action resource_type d result\<rparr>)"

definition handle_resource_update ::
  "console \<Rightarrow> environ \<Rightarrow> network \<Rightarrow> clock \<Rightarrow> string \<Rightarrow> json \<Rightarrow> string \<Rightarrow> world \<Rightarrow> world" where
  "handle_resource_update out env net ck resource_type resource_data action w =
     (let registry = RegistryUpdater default_api_url (Some (REGISTRY_API_KEY env)) in
      if action = ''delete'' then
        (case resource_data of
           JObject d \<Rightarrow>
             (case delete_resource registry net (dict_get d ''id'' JNull) (registry_requests w) of
                (Inl e, hist') \<Rightarrow> w\<lparr>registry_requests := hist'\<rparr>
              | (Inr result, hist') \<Rightarrow> log_event out ck action resource_type d result hist' w)
         | _ \<Rightarrow> w)
      else if action \<in> {''create'', ''update''} then
        (case resource_data of
           JObject d0 \<Rightarrow>
             (let d = AList.update ''resource_type'' (JString resource_type) d0 in
              case register_resource registry net (utcnow_iso ck) d (registry_requests w) of
                (Inl e, hist') \<Rightarrow> w\<lparr>registry_requests := hist'\<rparr>
              | (Inr result, hist') \<Rightarrow> log_event out ck action resource_type d result hist' w)
         | _ \<Rightarrow> w)
      else w)"

text \<open>
  A webhook request from its arrival to the end of the threads its view started (one
  after the other; the interleaving of threads of different requests is not modelled).
\<close>

definition run_update_tasks ::
  "console \<Rightarrow> environ \<Rightarrow> network \<Rightarrow> clock \<Rightarrow> update_task list \<Rightarrow> world \<Rightarrow> world" where
  "run_update_tasks out env net ck tasks w =
     fold (\<lambda>(resource_type, resource_data, action).
             handle_resource_update out env net ck resource_type resource_data action) tasks w"

definition serve_webhook ::
  "console \<Rightarrow> (string \<Rightarrow> string \<Rightarrow> string) \<Rightarrow> (string \<Rightarrow> exn + json) \<Rightarrow> environ \<Rightarrow> network
     \<Rightarrow> clock \<Rightarrow> flask_request \<Rightarrow> world \<Rightarrow> response \<times> world" where
  "serve_webhook out H loads env net ck rq w =
     (case cloudflare_webhook out H loads env rq of
        (answer, tasks) \<Rightarrow> (answer, run_update_tasks out env net ck tasks w))"

subsection \<open>The manual-sync view\<close>

definition valid_types :: "string list" where
  "valid_types = [''domains'', ''workers'', ''pages'', ''all'']"

text \<open>
  The thread started by the view runs \<^verbatim>\<open>run_sync\<close>, which starts one subprocess; the
  thread is given by the resource type it closes over, \<open>run_sync\<close> is the script the
  Python interpreter is started on.
\<close>

definition run_sync :: "string \<Rightarrow> string" where
  "run_sync resource_type =
     (if resource_type = ''all'' then ''sync_all.py''
      else ''hooks/'' @ (''sync_'' @ resource_type) @ ''.py'')"

definition manual_sync ::
  "environ \<Rightarrow> clock \<Rightarrow> flask_request \<Rightarrow> string \<Rightarrow> response \<times> string list" where
  "manual_sync env ck rq resource_type =
     (let given_key = headers_get rq ''X-API-Key'' [] in
      if given_key \<noteq> REGISTRY_API_KEY env
      then (JsonResponse 401 (JObject [(''error'', JString ''Unauthorized'')]), [])
      else if resource_type \<notin> set valid_types
      then (JsonResponse 400
              (JObject [(''error'', JString (''Invalid resource type. Must be one of: ''
                                            @ py_repr (JArray (map JString valid_types))))]), [])
      else (JsonResponse 202
              (JObject [(''status'', JString ''sync_started''),
                        (''resource_type'', JString resource_type),
                        (''timestamp'', JString (now_iso ck))]),
            [resource_type]))"

text \<open>
  A failed outbound call, as the claims about the registry client mean it: the request
  raised a \<^verbatim>\<open>RequestException\<close>, or the response has an error status.
\<close>

definition call_failed :: "exn + http_response \<Rightarrow> bool" where
  "call_failed got =
     (case got of
        Inl e \<Rightarrow> is_RequestException e
      | Inr response \<Rightarrow> 400 \<le> status_code response \<and> status_code response < 600)"

section \<open>Example environments\<close>

text \<open>
  A fetcher that finds three domains and one worker and whose Pages call raises;
  a registry that accepts the sync of domains and is down for everything else; a
  registry that is down; a clock.
\<close>

definition example_domains :: "dict list" where
  "example_domains =
     [[(''id'', JString ''z1''), (''name'', JString ''a.example'')],
      [(''id'', JString ''z2''), (''name'', JString ''b.example'')],
      [(''id'', JString ''z3''), (''name'', JString ''c.example'')]]"

definition example_workers :: "dict list" where
  "example_workers = [[(''id'', JString ''w1''), (''name'', JString ''w1'')]]"

definition example_getters :: getters where
  "example_getters k =
     (case k of
        Domains \<Rightarrow> Inr example_domains
      | Workers \<Rightarrow> Inr example_workers
      | Pages \<Rightarrow> Inl (Exn Exception ''API error: 403 - forbidden'')
      | _ \<Rightarrow> Inr [])"

definition service_unavailable :: "http_request list \<Rightarrow> http_response" where
  "service_unavailable hist =
     \<lparr>status_code = 503, reason = ''Service Unavailable'', url = request_url (last hist),
      body_text = [], body_json = Inl (Exn ValueError ''Expecting value'')\<rparr>"

definition down_network :: network where
  "down_network hist = Inr (service_unavailable hist)"

definition example_network :: network where
  "example_network hist =
     (if request_url (last hist) = ''https://chitty.cc/registry/api/sync/domain''
      then Inr \<lparr>status_code = 200, reason = ''OK'', url = request_url (last hist),
                body_text = [], body_json = Inr (JObject [(''success'', JBool True)])\<rparr>
      else Inr (service_unavailable hist))"

definition example_clock :: clock where
  "example_clock = \<lparr>now_iso = ''2024-05-01T12:00:00'', utcnow_iso = ''2024-05-01T17:00:00''\<rparr>"

text \<open>
  A registry that accepts the first sync call of a run (the second request after the
  health check) and is down afterwards; a fetcher whose six calls all raise, and one
  whose six calls all return the empty list.
\<close>

definition flaky_network :: network where
  "flaky_network hist =
     (if length hist \<le> 2
      then Inr \<lparr>status_code = 200, reason = ''OK'', url = request_url (last hist),
                body_text = [], body_json = Inr (JObject [(''success'', JBool True)])\<rparr>
      else Inr (service_unavailable hist))"

definition failing_getters :: getters where
  "failing_getters k = Inl (Exn Exception ''API error: 403 - forbidden'')"

definition empty_getters :: getters where
  "empty_getters k = Inr []"

text \<open>
  A standard output with the ASCII encoding (\<^verbatim>\<open>PYTHONIOENCODING=ascii\<close>, or a POSIX
  locale): a line of ASCII characters is written, and any other line raises the
  codec's \<^verbatim>\<open>UnicodeEncodeError\<close>, whose message names the first run of characters that
  have no code and where it starts. With it, a fetcher whose Workers call raises with an
  accented letter in its message.
\<close>

definition ascii_codec_error :: "string \<Rightarrow> exn" where
  "ascii_codec_error s =
     (let start = length (takeWhile (\<lambda>c. (of_char c :: nat) < 128) s);
          bad = takeWhile (\<lambda>c. \<not> (of_char c :: nat) < 128) (drop start s)
      in Exn UnicodeEncodeError
           (quoted ''ascii'' @ '' codec can't encode ''
            @ (if length bad = 1
               then ''character '' @ quoted ([CHR 0x5C, CHR ''x''] @ hex2 (of_char (hd bad)))
                    @ '' in position '' @ decimal start
               else ''characters in position '' @ decimal start @ ''-''
                    @ decimal (start + length bad - 1))
            @ '': ordinal not in range(128)''))"

definition ascii_console :: console where
  "ascii_console line = (if is_ascii line then None else Some (ascii_codec_error line))"

definition accented_getters :: getters where
  "accented_getters k =
     (case k of
        Domains \<Rightarrow> Inr example_domains
      | Workers \<Rightarrow> Inl (Exn Exception (''API error: 403 - refus'' @ [CHR 0xE9]))
      | Pages \<Rightarrow> Inr [[(''id'', JString ''p1'')]]
      | _ \<Rightarrow> Inr [])"

text \<open>Readers of what a run returned.\<close>

definition returned_summary :: "exn + run \<Rightarrow> summary option" where
  "returned_summary res = (case res of Inl e \<Rightarrow> None | Inr r \<Rightarrow> Some (run_summary r))"

definition returned_status :: "exn + run \<Rightarrow> nat option" where
  "returned_status res = (case res of Inl e \<Rightarrow> None | Inr r \<Rightarrow> Some (exit_status r))"

definition returned_requests :: "exn + run \<Rightarrow> http_request list option" where
  "returned_requests res = (case res of Inl e \<Rightarrow> None | Inr r \<Rightarrow> Some (requests_sent r))"


text \<open>
  Names for parts of a run that the statements below share: the dict that
  \<^verbatim>\<open>get_all_resources\<close> returns and the lines it prints when the console writes them all,
  \<^verbatim>\<open>all_resources.get(resource_key, [])\<close>, the summary a run
  starts from, the registry client of the orchestrator, the keys of a summary, and the
  entry written to \<^verbatim>\<open>errors\<close> for an attempt that did not succeed.
\<close>

definition fetched :: "getters \<Rightarrow> resources" where
  "fetched g = map (\<lambda>k. (kind_key k, case g k of Inl e \<Rightarrow> [] | Inr xs \<Rightarrow> xs))
                 [Domains, Workers, Pages, R2Buckets, KVNamespaces, DurableObjects]"

definition error_line :: "resource_kind \<Rightarrow> exn \<Rightarrow> string" where
  "error_line k e = ''Error fetching '' @ kind_label k @ '': '' @ str_exn e"

definition fetch_output :: "getters \<Rightarrow> string list" where
  "fetch_output g = concat (map (\<lambda>k. case g k of Inl e \<Rightarrow> [error_line k e] | Inr xs \<Rightarrow> [])
                 [Domains, Workers, Pages, R2Buckets, KVNamespaces, DurableObjects])"

text \<open>The kinds \<^verbatim>\<open>get_all_resources\<close> fetches before the kind \<open>k\<close>.\<close>

definition kinds_before :: "resource_kind \<Rightarrow> resource_kind list" where
  "kinds_before k =
     takeWhile (\<lambda>k0. k0 \<noteq> k) [Domains, Workers, Pages, R2Buckets, KVNamespaces, DurableObjects]"

definition resources_of :: "resources \<Rightarrow> string \<Rightarrow> dict list" where
  "resources_of all_resources resource_key =
     (case map_of all_resources resource_key of None \<Rightarrow> [] | Some xs \<Rightarrow> xs)"

definition initial_summary :: "clock \<Rightarrow> summary" where
  "initial_summary ck = \<lparr>timestamp = now_iso ck, synced = [], errors = [], total = 0\<rparr>"

definition the_registry :: registry_updater where
  "the_registry = RegistryUpdater default_api_url None"

definition summary_keys :: "summary \<Rightarrow> string set" where
  "summary_keys sm = fst ` set (synced sm) \<union> fst ` set (errors sm)"

definition failure_message :: "exn + sync_verdict \<Rightarrow> json" where
  "failure_message v =
     (case v of Inl e \<Rightarrow> JString (str_exn e) | Inr (Failed err) \<Rightarrow> err | Inr Synced \<Rightarrow> JNull)"

text \<open>
  The requests an orchestrator run sends: the health check, and sync calls for kinds
  that have records.
\<close>

definition sync_calls_ok ::
  "registry_updater \<Rightarrow> string \<Rightarrow> resources \<Rightarrow> http_request list \<Rightarrow> bool" where
  "sync_calls_ok c utcnow rs hist \<longleftrightarrow>
     (\<forall>q \<in> set hist. q = health_request c \<or>
        (\<exists>key ty. map_of available_types key = Some ty \<and> resources_of rs key \<noteq> [] \<and>
           q = sync_request c utcnow ty (resources_of rs key)))"

text \<open>
  For running the webhook view: a stand-in for the keyed hash, a parser that knows
  three bodies, and the requests signed with that hash.
\<close>

definition example_hmac :: "string \<Rightarrow> string \<Rightarrow> string" where
  "example_hmac key msg = rev msg @ key"

definition example_loads :: "string \<Rightarrow> exn + json" where
  "example_loads body =
     (if body = ''zone''
      then Inr (JObject [(''event'', JObject [(''type'', JString ''zone.created'')]),
                         (''data'', JObject [(''id'', JString ''z1'')])])
      else if body = ''purge''
      then Inr (JObject [(''event'', JObject [(''type'', JString ''zone.cache.purged'')])])
      else if body = ''accent''
      then Inr (JObject [(''event'', JObject [(''type'', JString (''caf'' @ [CHR 0xE9]))])])
      else Inl (Exn ValueError ''Expecting value''))"

definition no_environ :: environ where
  "no_environ name = None"

definition signed_request :: "string \<Rightarrow> flask_request" where
  "signed_request body =
     \<lparr>request_headers =
        [''X-Signature-256'' \<mapsto>
           hexdigest (example_hmac (encode_utf8 (WEBHOOK_SECRET no_environ)) body)],
      get_data = body\<rparr>"

definition bare_request :: flask_request where
  "bare_request = \<lparr>request_headers = Map.empty, get_data = []\<rparr>"

section \<open>Properties of the pagination loop\<close>

lemma fetch_page_serves:
  assumes "serves provider params items" "1 \<le> p" "p \<le> page_count (length items)"
  shows "fetch_page (provider (request_params params (int p))) (int p) acc
         = Inr (acc @ page_items items p, length items \<le> 50 * p)"
proof -
  from assms obtain response data info success where
    r: "provider (request_params params (int p)) = Inr response"
       "status_code response = 200"
       "body_json response = Inr (JObject data)"
       "map_of data ''success'' = Some success" "truthy success"
       "map_of data ''result'' = Some (JArray (page_items items p))"
       "map_of data ''result_info'' = Some (JObject info)"
       "map_of info ''total_count'' = Some (JInt (int (length items)))"
    unfolding serves_def by blast
  have "(int (length items) \<le> int p * 50) = (length items \<le> 50 * p)" by linarith
  with r show ?thesis
    by (simp add: fetch_page_def dict_get_def per_page_def)
qed

lemma stop_iff: "1 \<le> p \<Longrightarrow> (n \<le> 50 * p) = (page_count n \<le> p)"
  unfolding page_count_def per_page_def by (auto simp: max_def)

lemma take_page:
  assumes "1 \<le> p"
  shows "take (50 * (p - 1)) items @ page_items items p = take (50 * p) items"
proof -
  from assms obtain q where "p = Suc q" by (cases p) auto
  then show ?thesis
    by (simp add: page_items_def per_page_def take_add[symmetric] add.commute)
qed

lemma fetch_loop_serves:
  assumes "serves provider params items"
  shows "1 \<le> p \<Longrightarrow> p \<le> page_count (length items) \<Longrightarrow>
     fetch_loop provider params (int p) (take (50 * (p - 1)) items) sent
       = Some (sent @ map (\<lambda>q. request_params params (int q)) [p..<Suc (page_count (length items))],
               Inr items)"
proof (induction "page_count (length items) - p" arbitrary: p sent)
  case 0
  then have eq: "p = page_count (length items)" by simp
  then have stop: "length items \<le> 50 * p" using stop_iff[of p "length items"] 0 by simp
  have "fetch_page (provider (request_params params (int p))) (int p) (take (50 * (p - 1)) items)
         = Inr (take (50 * p) items, True)"
    using fetch_page_serves[OF assms 0(2) 0(3)] stop take_page[OF 0(2)] by simp
  then show ?case
    using stop eq by (subst fetch_loop.simps) (simp add: Let_def)
next
  case (Suc k)
  then have lt: "p < page_count (length items)" by simp
  then have nostop: "\<not> length items \<le> 50 * p" using stop_iff[of p "length items"] Suc by simp
  have step: "fetch_page (provider (request_params params (int p))) (int p) (take (50 * (p - 1)) items)
         = Inr (take (50 * p) items, False)"
    using fetch_page_serves[OF assms Suc(3) Suc(4)] nostop take_page[OF Suc(3)] by simp
  have ih: "fetch_loop provider params (int (Suc p)) (take (50 * (Suc p - 1)) items)
              (sent @ [request_params params (int p)])
            = Some ((sent @ [request_params params (int p)]) @
                    map (\<lambda>q. request_params params (int q)) [Suc p..<Suc (page_count (length items))],
                    Inr items)"
    using Suc lt by (intro Suc(1)) auto
  have up: "[p..<Suc (page_count (length items))] = p # [Suc p..<Suc (page_count (length items))]"
    using lt by (simp add: upt_conv_Cons)
  have "fetch_loop provider params (int p) (take (50 * (p - 1)) items) sent
        = fetch_loop provider params (int p + 1) (take (50 * p) items)
            (sent @ [request_params params (int p)])"
    using step by (subst fetch_loop.simps) (simp add: Let_def)
  also have "int p + 1 = int (Suc p)" by simp
  also have "take (50 * p) items = take (50 * (Suc p - 1)) items" by simp
  finally show ?case
    unfolding ih up by simp
qed

lemma paginated_fetch_serves:
  assumes "serves provider params items"
  shows "paginated_fetch provider params
         = Some (map (\<lambda>q. request_params params (int q)) [1..<Suc (page_count (length items))],
                 Inr items)"
proof -
  have "1 \<le> page_count (length items)" by (simp add: page_count_def)
  then have "fetch_loop provider params (int 1) (take (50 * (1 - 1)) items) []
          = Some ([] @ map (\<lambda>q. request_params params (int q))
                          [1..<Suc (page_count (length items))], Inr items)"
    by (intro fetch_loop_serves[OF assms]) simp_all
  then show ?thesis
    by (simp add: paginated_fetch_def del: upt_Suc)
qed

lemma paginated_fetch_without_info:
  assumes "serves_without_info provider params xs"
  shows "paginated_fetch provider params = Some ([request_params params 1], Inr xs)"
proof -
  from assms obtain response data success where
    r: "provider (request_params params 1) = Inr response"
       "status_code response = 200"
       "body_json response = Inr (JObject data)"
       "map_of data ''success'' = Some success" "truthy success"
       "map_of data ''result'' = Some (JArray xs)"
       "map_of data ''result_info'' = None"
    unfolding serves_without_info_def by blast
  then have "fetch_page (provider (request_params params 1)) 1 [] = Inr (xs, True)"
    by (simp add: fetch_page_def dict_get_def per_page_def)
  then show ?thesis
    unfolding paginated_fetch_def by (subst fetch_loop.simps) (simp add: Let_def)
qed

lemma page_count_simps:
  "page_count 0 = 1"
  "0 < n \<Longrightarrow> n mod 50 = 0 \<Longrightarrow> page_count n = n div 50"
  unfolding page_count_def per_page_def by auto

text \<open>
  C1. When the provider serves the distinct items \<open>items\<close> in pages of \<open>per_page\<close>,
  reporting their number as \<^verbatim>\<open>total_count\<close>, the paginated fetch returns: its result is
  \<open>items\<close> itself, so it has \<^verbatim>\<open>total_count\<close> elements and no duplicates. It requests the
  pages \<open>1, \<dots>, page_count n\<close> once each, in order: one request when there are no items,
  and \<open>n div per_page\<close> requests (no extra one) when \<open>n > 0\<close> is a multiple of the page
  size. When the first response has no \<^verbatim>\<open>result_info\<close>, the fetch returns that page's
  items after this single request.
\<close>

theorem paginated_fetch_complete:
  "(distinct items \<and> serves provider params items \<longrightarrow>
      (\<exists>sent rs. paginated_fetch provider params = Some (sent, Inr rs) \<and>
         rs = items \<and> length rs = length items \<and> distinct rs \<and>
         sent = map (\<lambda>q. request_params params (int q)) [1..<Suc (page_count (length items))] \<and>
         (length items = 0 \<longrightarrow> length sent = 1) \<and>
         (0 < length items \<and> length items mod nat per_page = 0
            \<longrightarrow> length sent = length items div nat per_page)))
   \<and> (serves_without_info provider params xs \<longrightarrow>
         paginated_fetch provider params = Some ([request_params params 1], Inr xs))"
proof (intro conjI impI)
  assume a: "distinct items \<and> serves provider params items"
  then have f: "paginated_fetch provider params
         = Some (map (\<lambda>q. request_params params (int q)) [1..<Suc (page_count (length items))],
                 Inr items)"
    by (intro paginated_fetch_serves) simp
  have "length items = 0 \<Longrightarrow> page_count (length items) = 1"
    by (simp add: page_count_simps)
  moreover have "0 < length items \<and> length items mod nat per_page = 0
       \<Longrightarrow> page_count (length items) = length items div nat per_page"
    by (simp add: page_count_simps per_page_def)
  ultimately show "\<exists>sent rs. paginated_fetch provider params = Some (sent, Inr rs) \<and>
         rs = items \<and> length rs = length items \<and> distinct rs \<and>
         sent = map (\<lambda>q. request_params params (int q)) [1..<Suc (page_count (length items))] \<and>
         (length items = 0 \<longrightarrow> length sent = 1) \<and>
         (0 < length items \<and> length items mod nat per_page = 0
            \<longrightarrow> length sent = length items div nat per_page)"
    using a f by (auto simp del: upt_Suc)
next
  assume "serves_without_info provider params xs"
  then show "paginated_fetch provider params = Some ([request_params params 1], Inr xs)"
    by (rule paginated_fetch_without_info)
qed

lemma serves_paged_provider: "serves (paged_provider items) [] items"
  unfolding serves_def
  by (auto simp: paged_provider_def request_params_def ok_response_def)

lemma serves_bare_provider: "serves_without_info (bare_provider xs) [] xs"
  unfolding serves_without_info_def
  by (auto simp: bare_provider_def ok_response_def)

theorem paginated_fetch_complete_witness:
  "distinct hundred \<and> serves (paged_provider hundred) [] hundred \<and>
   paginated_fetch (paged_provider hundred) []
     = Some ([request_params [] 1, request_params [] 2], Inr hundred) \<and>
   length hundred = 100 \<and>
   serves_without_info (bare_provider [JString ''example.com'']) [] [JString ''example.com''] \<and>
   paginated_fetch (bare_provider [JString ''example.com'']) []
     = Some ([request_params [] 1], Inr [JString ''example.com''])"
proof -
  have d: "distinct hundred"
    by (simp add: hundred_def distinct_map inj_on_def)
  have l: "length hundred = 100"
    by (simp add: hundred_def)
  have pc: "page_count 100 = 2"
    by (simp add: page_count_def per_page_def)
  have u: "[Suc 0..<3] = [1, 2]"
    by (simp add: upt_rec)
  show ?thesis
    using paginated_fetch_complete[of hundred "paged_provider hundred" "[]" "[]"]
      paginated_fetch_complete[of "[]" "bare_provider [JString ''example.com'']" "[]"
        "[JString ''example.com'']"]
      d l pc serves_paged_provider[of hundred] serves_bare_provider[of "[JString ''example.com'']"]
    by (simp del: upt_Suc add: u)
qed

section \<open>Properties of the Resource Fetcher\<close>

lemma try_assign_update:
  assumes "map_of r key = Some []"
    and "\<And>e. got = Inl e \<Longrightarrow> out (''Error fetching '' @ label @ '': '' @ str_exn e) = None"
  shows "try_assign out key label got (r, printed)
     = Inr (AList.update key (case got of Inl e \<Rightarrow> [] | Inr xs \<Rightarrow> xs) r,
            printed @ (case got of Inl e \<Rightarrow> [''Error fetching '' @ label @ '': '' @ str_exn e]
                       | Inr xs \<Rightarrow> []))"
  using assms by (simp add: try_assign_def print_def then_do_def update_triv split: sum.split)

lemma try_assign_raises:
  assumes "got = Inl e" and "out (''Error fetching '' @ label @ '': '' @ str_exn e) = Some e'"
  shows "try_assign out key label got s = Inl e'"
  using assms by (cases s) (simp add: try_assign_def print_def then_do_def)

lemma try_assign_kind:
  assumes "\<And>e. g k = Inl e \<Longrightarrow> out (error_line k e) = None"
    and "map_of r (kind_key k) = Some []"
  shows "try_assign out (kind_key k) (kind_label k) (g k) (r, printed)
     = Inr (AList.update (kind_key k) (case g k of Inl e \<Rightarrow> [] | Inr xs \<Rightarrow> xs) r,
            printed @ (case g k of Inl e \<Rightarrow> [error_line k e] | Inr xs \<Rightarrow> []))"
proof -
  have "\<And>e. g k = Inl e
          \<Longrightarrow> out (''Error fetching '' @ kind_label k @ '': '' @ str_exn e) = None"
    using assms(1) by (simp add: error_line_def)
  from try_assign_update[where got = "g k" and out = out and label = "kind_label k",
      OF assms(2) this]
  show ?thesis
    by (simp only: error_line_def)
qed

lemma try_assign_kind_raises:
  assumes "g k = Inl e" and "out (error_line k e) = Some e'"
  shows "try_assign out (kind_key k) (kind_label k) (g k) s = Inl e'"
  using assms by (intro try_assign_raises[where e = e]) (simp_all add: error_line_def)

lemma get_all_resources_eq:
  assumes "\<And>k e. g k = Inl e \<Longrightarrow> out (error_line k e) = None"
  shows "get_all_resources out g = Inr (fetched g, fetch_output g)"
proof -
  note t = try_assign_kind[where g = g and out = out, OF assms]
  show ?thesis
    using t[of Domains] t[of Workers] t[of Pages] t[of R2Buckets] t[of KVNamespaces]
      t[of DurableObjects]
    by (simp add: get_all_resources_def then_do_def fetched_def fetch_output_def
        cong: sum.case_cong)
qed

lemma get_all_resources_working:
  "get_all_resources working_console g = Inr (fetched g, fetch_output g)"
  by (rule get_all_resources_eq) (simp add: working_console_def)

lemma get_all_resources_raises:
  assumes "g k = Inl e" and "out (error_line k e) = Some e'"
    and "\<And>k0 e0. k0 \<in> set (kinds_before k) \<Longrightarrow> g k0 = Inl e0
           \<Longrightarrow> out (error_line k0 e0) = None"
  shows "get_all_resources out g = Inl e'"
proof -
  have r: "try_assign out (kind_key k) (kind_label k) (g k) (r, printed) = Inl e'" for r printed
    using assms(1,2) by (rule try_assign_kind_raises)
  have t: "try_assign out (kind_key k0) (kind_label k0) (g k0) (r, printed)
     = Inr (AList.update (kind_key k0) (case g k0 of Inl e \<Rightarrow> [] | Inr xs \<Rightarrow> xs) r,
            printed @ (case g k0 of Inl e \<Rightarrow> [error_line k0 e] | Inr xs \<Rightarrow> []))"
    if "k0 \<in> set (kinds_before k)" and "map_of r (kind_key k0) = Some []" for k0 r printed
    using that assms(3)[of k0] by (intro try_assign_kind) simp_all
  show ?thesis
  proof (cases k)
    case Domains
    with r show ?thesis
      by (simp add: get_all_resources_def then_do_def)
  next
    case Workers
    with r t[of Domains] show ?thesis
      by (simp add: get_all_resources_def then_do_def kinds_before_def)
  next
    case Pages
    with r t[of Domains] t[of Workers] show ?thesis
      by (simp add: get_all_resources_def then_do_def kinds_before_def)
  next
    case R2Buckets
    with r t[of Domains] t[of Workers] t[of Pages] show ?thesis
      by (simp add: get_all_resources_def then_do_def kinds_before_def)
  next
    case KVNamespaces
    with r t[of Domains] t[of Workers] t[of Pages] t[of R2Buckets] show ?thesis
      by (simp add: get_all_resources_def then_do_def kinds_before_def)
  next
    case DurableObjects
    with r t[of Domains] t[of Workers] t[of Pages] t[of R2Buckets] t[of KVNamespaces]
    show ?thesis
      by (simp add: get_all_resources_def then_do_def kinds_before_def)
  qed
qed

lemma map_of_fetched:
  "map_of (fetched g) (kind_key k) = Some (case g k of Inl e \<Rightarrow> [] | Inr xs \<Rightarrow> xs)"
  by (cases k) (simp_all add: fetched_def)

lemma fetch_output_line: "g k = Inl e \<Longrightarrow> error_line k e \<in> set (fetch_output g)"
  by (cases k) (simp_all add: fetch_output_def)

text \<open>
  C4 holds on the code as long as every error line can be printed, and fails when one
  cannot. When the console writes the error line of every getter that raised,
  \<^verbatim>\<open>get_all_resources\<close> returns a dict with exactly the six keys, the entry of a kind is
  what that kind's getter returned, or the empty list when that getter raised, and every
  other kind gets the same list as in a run where the failing getter returns any list
  instead. When the getter of kind \<open>k\<close> raises and the \<^verbatim>\<open>print\<close> of its error line raises
  \<open>e'\<close> (the lines of the kinds before \<open>k\<close> having been written), \<^verbatim>\<open>get_all_resources\<close>
  raises \<open>e'\<close> and returns no dict, whatever the getters of the kinds after \<open>k\<close> would do:
  they are not called.
\<close>

theorem get_all_resources_unprintable_error:
  "((\<forall>k e. g k = Inl e \<longrightarrow> out (error_line k e) = None) \<longrightarrow>
      (\<exists>r printed. get_all_resources out g = Inr (r, printed) \<and>
         map fst r = [''domains'', ''workers'', ''pages'', ''r2_buckets'', ''kv_namespaces'',
                      ''durable_objects''] \<and>
         (\<forall>k. map_of r (kind_key k) = Some (case g k of Inl e \<Rightarrow> [] | Inr xs \<Rightarrow> xs)) \<and>
         (\<forall>k e. g k = Inl e \<longrightarrow>
            map_of r (kind_key k) = Some [] \<and> error_line k e \<in> set printed \<and>
            (\<forall>xs. \<exists>r' printed'.
               get_all_resources out (g(k := Inr xs)) = Inr (r', printed') \<and>
               (\<forall>k'. k' \<noteq> k \<longrightarrow> map_of r' (kind_key k') = map_of r (kind_key k')))))) \<and>
   (g k = Inl e \<and> out (error_line k e) = Some e' \<and>
    (\<forall>k0 e0. k0 \<in> set (kinds_before k) \<and> g k0 = Inl e0 \<longrightarrow> out (error_line k0 e0) = None)
    \<longrightarrow>
      get_all_resources out g = Inl e' \<and>
      (\<forall>g'. (\<forall>k0 \<in> set (kinds_before k @ [k]). g' k0 = g k0)
         \<longrightarrow> get_all_resources out g' = Inl e'))"
proof (rule conjI)
  show "(\<forall>k e. g k = Inl e \<longrightarrow> out (error_line k e) = None) \<longrightarrow>
      (\<exists>r printed. get_all_resources out g = Inr (r, printed) \<and>
         map fst r = [''domains'', ''workers'', ''pages'', ''r2_buckets'', ''kv_namespaces'',
                      ''durable_objects''] \<and>
         (\<forall>k. map_of r (kind_key k) = Some (case g k of Inl e \<Rightarrow> [] | Inr xs \<Rightarrow> xs)) \<and>
         (\<forall>k e. g k = Inl e \<longrightarrow>
            map_of r (kind_key k) = Some [] \<and> error_line k e \<in> set printed \<and>
            (\<forall>xs. \<exists>r' printed'.
               get_all_resources out (g(k := Inr xs)) = Inr (r', printed') \<and>
               (\<forall>k'. k' \<noteq> k \<longrightarrow> map_of r' (kind_key k') = map_of r (kind_key k')))))"
  proof (rule impI)
    assume ok: "\<forall>k e. g k = Inl e \<longrightarrow> out (error_line k e) = None"
    have keys: "map fst (fetched g) = [''domains'', ''workers'', ''pages'', ''r2_buckets'',
                                       ''kv_namespaces'', ''durable_objects'']"
      by (simp add: fetched_def)
    have whole: "get_all_resources out g = Inr (fetched g, fetch_output g)"
      using ok by (intro get_all_resources_eq) simp
    have part: "get_all_resources out (g(k := Inr xs))
                = Inr (fetched (g(k := Inr xs)), fetch_output (g(k := Inr xs)))" for k xs
      using ok by (intro get_all_resources_eq) (simp split: if_splits)
    show "\<exists>r printed. get_all_resources out g = Inr (r, printed) \<and>
         map fst r = [''domains'', ''workers'', ''pages'', ''r2_buckets'', ''kv_namespaces'',
                      ''durable_objects''] \<and>
         (\<forall>k. map_of r (kind_key k) = Some (case g k of Inl e \<Rightarrow> [] | Inr xs \<Rightarrow> xs)) \<and>
         (\<forall>k e. g k = Inl e \<longrightarrow>
            map_of r (kind_key k) = Some [] \<and> error_line k e \<in> set printed \<and>
            (\<forall>xs. \<exists>r' printed'.
               get_all_resources out (g(k := Inr xs)) = Inr (r', printed') \<and>
               (\<forall>k'. k' \<noteq> k \<longrightarrow> map_of r' (kind_key k') = map_of r (kind_key k'))))"
      by (intro exI[of _ "fetched g"] exI[of _ "fetch_output g"])
         (simp add: whole part keys map_of_fetched fetch_output_line)
  qed
next
  show "g k = Inl e \<and> out (error_line k e) = Some e' \<and>
    (\<forall>k0 e0. k0 \<in> set (kinds_before k) \<and> g k0 = Inl e0 \<longrightarrow> out (error_line k0 e0) = None)
    \<longrightarrow>
      get_all_resources out g = Inl e' \<and>
      (\<forall>g'. (\<forall>k0 \<in> set (kinds_before k @ [k]). g' k0 = g k0)
         \<longrightarrow> get_all_resources out g' = Inl e')"
  proof (intro impI conjI allI)
    assume a: "g k = Inl e \<and> out (error_line k e) = Some e' \<and>
      (\<forall>k0 e0. k0 \<in> set (kinds_before k) \<and> g k0 = Inl e0 \<longrightarrow> out (error_line k0 e0) = None)"
    then show "get_all_resources out g = Inl e'"
      by (intro get_all_resources_raises[where k = k and e = e]) simp_all
    fix g'
    assume same: "\<forall>k0 \<in> set (kinds_before k @ [k]). g' k0 = g k0"
    with a show "get_all_resources out g' = Inl e'"
      by (intro get_all_resources_raises[where k = k and e = e]) simp_all
  qed
qed

theorem get_all_resources_unprintable_error_witness:
  "fetch_output example_getters = [''Error fetching pages: API error: 403 - forbidden''] \<and>
   ascii_console ''Error fetching pages: API error: 403 - forbidden'' = None \<and>
   (\<exists>r printed. get_all_resources ascii_console example_getters = Inr (r, printed) \<and>
        map_of r ''pages'' = Some [] \<and>
        ''Error fetching pages: API error: 403 - forbidden'' \<in> set printed \<and>
        map_of r ''workers'' = Some example_workers \<and>
        (\<exists>r' printed'.
           get_all_resources ascii_console (example_getters(Pages := Inr [[(''id'', JString ''p1'')]]))
             = Inr (r', printed') \<and>
           map_of r' ''workers'' = map_of r ''workers'' \<and>
           map_of r' ''domains'' = map_of r ''domains'')) \<and>
   accented_getters Workers = Inl (Exn Exception (''API error: 403 - refus'' @ [CHR 0xE9])) \<and>
   kinds_before Workers = [Domains] \<and>
   accented_getters Domains = Inr example_domains \<and>
   accented_getters Pages = Inr [[(''id'', JString ''p1'')]] \<and>
   ascii_console (''Error fetching workers: API error: 403 - refus'' @ [CHR 0xE9])
     = Some (Exn UnicodeEncodeError
         (quoted ''ascii'' @ '' codec can't encode character '' @ quoted (CHR 0x5C # ''xe9'')
          @ '' in position 46: ordinal not in range(128)'')) \<and>
   get_all_resources ascii_console accented_getters
     = Inl (Exn UnicodeEncodeError
         (quoted ''ascii'' @ '' codec can't encode character '' @ quoted (CHR 0x5C # ''xe9'')
          @ '' in position 46: ordinal not in range(128)'')) \<and>
   get_all_resources ascii_console (accented_getters(Pages := Inl (Exn Exception ''down'')))
     = Inl (Exn UnicodeEncodeError
         (quoted ''ascii'' @ '' codec can't encode character '' @ quoted (CHR 0x5C # ''xe9'')
          @ '' in position 46: ordinal not in range(128)''))"
proof -
  let ?e = "Exn Exception (''API error: 403 - refus'' @ [CHR 0xE9])"
  let ?u = "Exn UnicodeEncodeError
         (quoted ''ascii'' @ '' codec can't encode character '' @ quoted (CHR 0x5C # ''xe9'')
          @ '' in position 46: ordinal not in range(128)'')"
  have fo: "fetch_output example_getters = [''Error fetching pages: API error: 403 - forbidden'']"
    by (simp add: fetch_output_def example_getters_def error_line_def)
  have pr: "ascii_console ''Error fetching pages: API error: 403 - forbidden'' = None"
    by (simp add: ascii_console_def is_ascii_def)
  have ok: "\<forall>k e. example_getters k = Inl e \<longrightarrow> ascii_console (error_line k e) = None"
  proof (intro allI impI)
    fix k e assume "example_getters k = Inl e"
    then have "k = Pages \<and> e = Exn Exception ''API error: 403 - forbidden''"
      by (cases k) (simp_all add: example_getters_def)
    then show "ascii_console (error_line k e) = None"
      using pr by (simp add: error_line_def)
  qed
  have p: "example_getters Pages = Inl (Exn Exception ''API error: 403 - forbidden'')"
    by (simp add: example_getters_def)
  from get_all_resources_unprintable_error[of example_getters ascii_console] ok
  obtain r printed where
    r: "get_all_resources ascii_console example_getters = Inr (r, printed)"
       "\<forall>k. map_of r (kind_key k)
            = Some (case example_getters k of Inl e \<Rightarrow> [] | Inr xs \<Rightarrow> xs)"
       "\<forall>k e. example_getters k = Inl e \<longrightarrow>
          map_of r (kind_key k) = Some [] \<and> error_line k e \<in> set printed \<and>
          (\<forall>xs. \<exists>r' printed'.
             get_all_resources ascii_console (example_getters(k := Inr xs)) = Inr (r', printed') \<and>
             (\<forall>k'. k' \<noteq> k \<longrightarrow> map_of r' (kind_key k') = map_of r (kind_key k')))"
    by blast
  from r(3) p obtain r' printed' where
    r': "get_all_resources ascii_console (example_getters(Pages := Inr [[(''id'', JString ''p1'')]]))
           = Inr (r', printed')"
        "\<forall>k'. k' \<noteq> Pages \<longrightarrow> map_of r' (kind_key k') = map_of r (kind_key k')"
    by blast
  have "map_of r (kind_key Pages) = Some []"
    using r(3) p by blast
  moreover have "error_line Pages (Exn Exception ''API error: 403 - forbidden'') \<in> set printed"
    using r(3) p by blast
  moreover have "map_of r (kind_key Workers) = Some example_workers"
    using r(2)[rule_format, of Workers] by (simp add: example_getters_def)
  moreover have "map_of r' (kind_key Workers) = map_of r (kind_key Workers)"
    using r'(2)[rule_format, of Workers] by simp
  moreover have "map_of r' (kind_key Domains) = map_of r (kind_key Domains)"
    using r'(2)[rule_format, of Domains] by simp
  ultimately have first:
    "\<exists>r printed. get_all_resources ascii_console example_getters = Inr (r, printed) \<and>
        map_of r ''pages'' = Some [] \<and>
        ''Error fetching pages: API error: 403 - forbidden'' \<in> set printed \<and>
        map_of r ''workers'' = Some example_workers \<and>
        (\<exists>r' printed'.
           get_all_resources ascii_console (example_getters(Pages := Inr [[(''id'', JString ''p1'')]]))
             = Inr (r', printed') \<and>
           map_of r' ''workers'' = map_of r ''workers'' \<and>
           map_of r' ''domains'' = map_of r ''domains'')"
    using p r(1) r'(1) by (auto simp: error_line_def)
  have w: "accented_getters Workers = Inl ?e"
    and d: "accented_getters Domains = Inr example_domains"
    and pg: "accented_getters Pages = Inr [[(''id'', JString ''p1'')]]"
    by (simp_all add: accented_getters_def)
  have kb: "kinds_before Workers = [Domains]"
    by (simp add: kinds_before_def)
  have line: "ascii_console (''Error fetching workers: API error: 403 - refus'' @ [CHR 0xE9])
              = Some ?u"
    by (simp add: ascii_console_def is_ascii_def ascii_codec_error_def Let_def quoted_def
          hex2_def digit_char_def)
  then have line': "ascii_console (error_line Workers ?e) = Some ?u"
    by (simp add: error_line_def)
  from get_all_resources_unprintable_error[where g = accented_getters and out = ascii_console
      and k = Workers and e = ?e and e' = ?u]
  have second: "get_all_resources ascii_console accented_getters = Inl ?u \<and>
      (\<forall>g'. (\<forall>k0 \<in> set (kinds_before Workers @ [Workers]). g' k0 = accented_getters k0)
         \<longrightarrow> get_all_resources ascii_console g' = Inl ?u)"
    using w line' d by (simp add: kb)
  then have third:
    "get_all_resources ascii_console (accented_getters(Pages := Inl (Exn Exception ''down'')))
       = Inl ?u"
    by (simp add: kb)
  show ?thesis
    using fo pr first w kb d pg line second third by simp
qed

section \<open>Properties of the Registry Client\<close>

lemma checked_json_failed:
  "call_failed got \<Longrightarrow> \<exists>e. checked_json got = Inl e \<and> is_RequestException e"
  by (auto simp: call_failed_def checked_json_def raise_for_status_def split: sum.splits)

lemma caught:
  "is_RequestException e \<Longrightarrow>
   except_RequestException (Inl e) (\<lambda>e. failure e ident)
     = Inr (JObject ([(''success'', JBool False), (''error'', JString (str_exn e))] @ ident))"
  by (simp add: except_RequestException_def failure_def)

text \<open>
  C5. For each of the five write operations: when the outbound call fails, that is the
  request raises a \<^verbatim>\<open>RequestException\<close> (a network failure) or is answered with a status
  from 400 to 599 (which \<^verbatim>\<open>raise_for_status\<close> turns into an \<^verbatim>\<open>HTTPError\<close>), the operation
  does not raise: it returns the dict with \<^verbatim>\<open>success: False\<close>, the message \<^verbatim>\<open>str(e)\<close> of
  that exception under \<^verbatim>\<open>error\<close>, and the identifying fields of the operation.
\<close>

theorem write_operations_catch_failures:
  "(call_failed (net (hist @ [register_request c t r])) \<longrightarrow>
      (\<exists>e. checked_json (net (hist @ [register_request c t r])) = Inl e \<and>
           fst (register_resource c net t r hist)
             = Inr (JObject [(''success'', JBool False), (''error'', JString (str_exn e)),
                             (''resource'', dict_get r ''name'' JNull)]))) \<and>
   (call_failed (net (hist @ [update_request c t rid u])) \<longrightarrow>
      (\<exists>e. checked_json (net (hist @ [update_request c t rid u])) = Inl e \<and>
           fst (update_resource c net t rid u hist)
             = Inr (JObject [(''success'', JBool False), (''error'', JString (str_exn e)),
                             (''resource_id'', rid)]))) \<and>
   (call_failed (net (hist @ [delete_request c rid])) \<longrightarrow>
      (\<exists>e. checked_json (net (hist @ [delete_request c rid])) = Inl e \<and>
           fst (delete_resource c net rid hist)
             = Inr (JObject [(''success'', JBool False), (''error'', JString (str_exn e)),
                             (''resource_id'', rid)]))) \<and>
   (call_failed (net (hist @ [bulk_request c t rs])) \<longrightarrow>
      (\<exists>e. checked_json (net (hist @ [bulk_request c t rs])) = Inl e \<and>
           fst (bulk_register c net t rs hist)
             = Inr (JObject [(''success'', JBool False), (''error'', JString (str_exn e)),
                             (''count'', JInt (int (length rs)))]))) \<and>
   (call_failed (net (hist @ [sync_request c t ty rs])) \<longrightarrow>
      (\<exists>e. checked_json (net (hist @ [sync_request c t ty rs])) = Inl e \<and>
           fst (sync_resources c net t ty rs hist)
             = Inr (JObject [(''success'', JBool False), (''error'', JString (str_exn e)),
                             (''resource_type'', JString ty),
                             (''count'', JInt (int (length rs)))])))"
proof (intro conjI impI)
  assume "call_failed (net (hist @ [register_request c t r]))"
  from checked_json_failed[OF this] obtain e where
    "checked_json (net (hist @ [register_request c t r])) = Inl e" "is_RequestException e"
    by blast
  then show
    "\<exists>e. checked_json (net (hist @ [register_request c t r])) = Inl e \<and>
           fst (register_resource c net t r hist)
             = Inr (JObject [(''success'', JBool False), (''error'', JString (str_exn e)),
                             (''resource'', dict_get r ''name'' JNull)])"
    by (intro exI[of _ e]) (simp add: register_resource_def session_send_def caught)
next
  assume "call_failed (net (hist @ [update_request c t rid u]))"
  from checked_json_failed[OF this] obtain e where
    "checked_json (net (hist @ [update_request c t rid u])) = Inl e" "is_RequestException e"
    by blast
  then show
    "\<exists>e. checked_json (net (hist @ [update_request c t rid u])) = Inl e \<and>
           fst (update_resource c net t rid u hist)
             = Inr (JObject [(''success'', JBool False), (''error'', JString (str_exn e)),
                             (''resource_id'', rid)])"
    by (intro exI[of _ e]) (simp add: update_resource_def session_send_def caught)
next
  assume "call_failed (net (hist @ [delete_request c rid]))"
  from checked_json_failed[OF this] obtain e where
    "checked_json (net (hist @ [delete_request c rid])) = Inl e" "is_RequestException e"
    by blast
  then show
    "\<exists>e. checked_json (net (hist @ [delete_request c rid])) = Inl e \<and>
           fst (delete_resource c net rid hist)
             = Inr (JObject [(''success'', JBool False), (''error'', JString (str_exn e)),
                             (''resource_id'', rid)])"
    by (intro exI[of _ e]) (simp add: delete_resource_def session_send_def caught)
next
  assume "call_failed (net (hist @ [bulk_request c t rs]))"
  from checked_json_failed[OF this] obtain e where
    "checked_json (net (hist @ [bulk_request c t rs])) = Inl e" "is_RequestException e"
    by blast
  then show
    "\<exists>e. checked_json (net (hist @ [bulk_request c t rs])) = Inl e \<and>
           fst (bulk_register c net t rs hist)
             = Inr (JObject [(''success'', JBool False), (''error'', JString (str_exn e)),
                             (''count'', JInt (int (length rs)))])"
    by (intro exI[of _ e]) (simp add: bulk_register_def session_send_def caught)
next
  assume "call_failed (net (hist @ [sync_request c t ty rs]))"
  from checked_json_failed[OF this] obtain e where
    "checked_json (net (hist @ [sync_request c t ty rs])) = Inl e" "is_RequestException e"
    by blast
  then show
    "\<exists>e. checked_json (net (hist @ [sync_request c t ty rs])) = Inl e \<and>
           fst (sync_resources c net t ty rs hist)
             = Inr (JObject [(''success'', JBool False), (''error'', JString (str_exn e)),
                             (''resource_type'', JString ty),
                             (''count'', JInt (int (length rs)))])"
    by (intro exI[of _ e]) (simp add: sync_resources_def session_send_def caught)
qed

theorem write_operations_catch_failures_witness:
  "call_failed (down_network ([] @ [register_request (RegistryUpdater default_api_url None)
       ''2024-05-01T17:00:00'' [(''id'', JString ''z1''), (''name'', JString ''a.example'')]])) \<and>
   fst (register_resource (RegistryUpdater default_api_url None) down_network
          ''2024-05-01T17:00:00'' [(''id'', JString ''z1''), (''name'', JString ''a.example'')] [])
     = Inr (JObject [(''success'', JBool False),
                     (''error'', JString ''503 Server Error: Service Unavailable for url: https://chitty.cc/registry/api/resources''),
                     (''resource'', JString ''a.example'')]) \<and>
   fst (update_resource (RegistryUpdater default_api_url None) down_network
          ''2024-05-01T17:00:00'' (JString ''z1'') [(''status'', JString ''moved'')] [])
     = Inr (JObject [(''success'', JBool False),
                     (''error'', JString ''503 Server Error: Service Unavailable for url: https://chitty.cc/registry/api/resources/z1''),
                     (''resource_id'', JString ''z1'')]) \<and>
   fst (delete_resource (RegistryUpdater default_api_url None) down_network (JString ''z1'') [])
     = Inr (JObject [(''success'', JBool False),
                     (''error'', JString ''503 Server Error: Service Unavailable for url: https://chitty.cc/registry/api/resources/z1''),
                     (''resource_id'', JString ''z1'')]) \<and>
   fst (bulk_register (RegistryUpdater default_api_url None) down_network
          ''2024-05-01T17:00:00'' [[(''id'', JString ''z1'')], [(''id'', JString ''z2'')]] [])
     = Inr (JObject [(''success'', JBool False),
                     (''error'', JString ''503 Server Error: Service Unavailable for url: https://chitty.cc/registry/api/resources/bulk''),
                     (''count'', JInt 2)]) \<and>
   fst (sync_resources (RegistryUpdater default_api_url None) down_network
          ''2024-05-01T17:00:00'' ''domain'' [[(''id'', JString ''z1'')], [(''id'', JString ''z2'')]] [])
     = Inr (JObject [(''success'', JBool False),
                     (''error'', JString ''503 Server Error: Service Unavailable for url: https://chitty.cc/registry/api/sync/domain''),
                     (''resource_type'', JString ''domain''),
                     (''count'', JInt 2)])"
proof -
  have u: "api_url (RegistryUpdater default_api_url None) = ''https://chitty.cc/registry''"
    by (simp add: RegistryUpdater_def default_api_url_def)
  have f: "call_failed (down_network hist)" for hist
    by (simp add: call_failed_def down_network_def service_unavailable_def)
  have c: "checked_json (down_network hist)
           = Inl (Exn HTTPError (''503 Server Error: Service Unavailable for url: ''
                                 @ request_url (last hist)))" for hist
    by (simp add: checked_json_def down_network_def service_unavailable_def
          raise_for_status_def digit_char_def)
  show ?thesis
    using write_operations_catch_failures[of down_network "[]"
        "RegistryUpdater default_api_url None" "''2024-05-01T17:00:00''"
        "[(''id'', JString ''z1''), (''name'', JString ''a.example'')]"
        "JString ''z1''" "[(''status'', JString ''moved'')]"
        "[[(''id'', JString ''z1'')], [(''id'', JString ''z2'')]]" "''domain''"]
    by (simp add: f c u register_request_def update_request_def delete_request_def
          bulk_request_def sync_request_def sync_endpoint_def post_def dict_get_def)
qed

section \<open>Properties of the Sync Orchestrator\<close>

lemma sync_all_resources_shape:
  assumes "fold (sync_kind the_registry net (utcnow_iso ck) (fetched g)) (types_to_sync ts)
             (initial_summary ck, [health_request the_registry]) = (sm1, hist1)"
  shows "sync_all_resources g net ck log_before ts =
     Inr \<lparr>exit_status = (if errors sm1 = [] then 0 else 1),
          run_summary = sm1\<lparr>total := sum_list (map snd (synced sm1))\<rparr>,
          requests_sent = hist1,
          sync_all_log = log_before
             @ dumps (Some 2) (summary_json (sm1\<lparr>total := sum_list (map snd (synced sm1))\<rparr>))
             @ [CHR 0x0A],
          full_sync_snapshot =
            dumps (Some 2)
              (JObject [(''timestamp'', JString (now_iso ck)),
                        (''resources'', resources_json (fetched g)),
                        (''summary'', summary_json (sm1\<lparr>total := sum_list (map snd (synced sm1))\<rparr>))])\<rparr>"
  using assms
  by (simp add: sync_all_resources_def get_all_resources_working then_do_def health_check_def
        session_send_def Let_def the_registry_def initial_summary_def)

lemma sync_attempt_hist:
  "snd (sync_attempt c net utcnow ty xs hist) = hist @ [sync_request c utcnow ty xs]"
  by (simp add: sync_attempt_def sync_resources_def session_send_def)

lemma sync_kind_skip:
  "map_of available_types key = None \<or> resources_of rs key = [] \<Longrightarrow>
   sync_kind c net utcnow rs key (sm, hist) = (sm, hist)"
  by (auto simp: sync_kind_def resources_of_def Let_def split: option.splits)

lemma sync_kind_call:
  assumes "map_of available_types key = Some ty" "resources_of rs key = xs" "xs \<noteq> []"
  shows "sync_kind c net utcnow rs key (sm, hist) =
     (if fst (sync_attempt c net utcnow ty xs hist) = Inr Synced
      then sm\<lparr>synced := AList.update key (length xs) (synced sm)\<rparr>
      else sm\<lparr>errors := AList.update key
                 (failure_message (fst (sync_attempt c net utcnow ty xs hist))) (errors sm)\<rparr>,
      hist @ [sync_request c utcnow ty xs])"
proof -
  obtain v h where vh: "sync_attempt c net utcnow ty xs hist = (v, h)"
    by (cases "sync_attempt c net utcnow ty xs hist")
  with sync_attempt_hist[of c net utcnow ty xs hist] have h: "h = hist @ [sync_request c utcnow ty xs]"
    by simp
  show ?thesis
    using assms vh h
    by (auto simp: sync_kind_def resources_of_def Let_def failure_message_def
             split: option.splits sum.splits sync_verdict.splits)
qed


lemma sync_kind_step:
  assumes "sync_kind c net utcnow rs key (sm, hist) = (sm2, hist2)"
  shows "(sm2 = sm \<and> hist2 = hist) \<or>
    (\<exists>ty. map_of available_types key = Some ty \<and> resources_of rs key \<noteq> [] \<and>
       hist2 = hist @ [sync_request c utcnow ty (resources_of rs key)] \<and>
       ((synced sm2 = AList.update key (length (resources_of rs key)) (synced sm) \<and>
         errors sm2 = errors sm) \<or>
        (\<exists>v. errors sm2 = AList.update key v (errors sm) \<and> synced sm2 = synced sm)))"
proof (cases "map_of available_types key = None \<or> resources_of rs key = []")
  case True
  from sync_kind_skip[OF this] assms show ?thesis by simp
next
  case False
  then obtain ty where ty: "map_of available_types key = Some ty" "resources_of rs key \<noteq> []"
    by auto
  from sync_kind_call[OF ty(1) refl ty(2), of c net utcnow sm hist] assms ty show ?thesis
    by (auto split: if_splits)
qed

lemma sync_kind_keys:
  assumes "sync_kind c net utcnow rs key (sm, hist) = (sm2, hist2)"
  shows "(fst ` set (synced sm2) = fst ` set (synced sm) \<and>
          fst ` set (errors sm2) = fst ` set (errors sm)) \<or>
         (fst ` set (synced sm2) = insert key (fst ` set (synced sm)) \<and>
          fst ` set (errors sm2) = fst ` set (errors sm)) \<or>
         (fst ` set (synced sm2) = fst ` set (synced sm) \<and>
          fst ` set (errors sm2) = insert key (fst ` set (errors sm)))"
proof -
  have u: "fst ` set (AList.update key v al) = insert key (fst ` set al)" for v and al :: "(string \<times> 'b) list"
    by (simp add: dom_update)
  from sync_kind_step[OF assms] show ?thesis
    by (elim disjE exE conjE) (simp_all only: u simp_thms)
qed

lemma count_list_distinct: "distinct xs \<Longrightarrow> count_list xs k \<le> 1"
  by (induction xs) auto

lemma fold_sync_kind_twice:
  "fold (sync_kind c net utcnow rs) ks (sm, hist) = (sm', hist') \<Longrightarrow>
   summary_keys sm' \<subseteq> summary_keys sm \<union> set ks \<and>
   (\<forall>k. k \<in> fst ` set (synced sm') \<inter> fst ` set (errors sm') \<longrightarrow>
        k \<in> fst ` set (synced sm) \<inter> fst ` set (errors sm) \<or>
        (k \<in> summary_keys sm \<and> k \<in> set ks) \<or> 2 \<le> count_list ks k)"
proof (induction ks arbitrary: sm hist)
  case Nil
  then show ?case by simp
next
  case (Cons k0 ks)
  obtain sm2 hist2 where s2: "sync_kind c net utcnow rs k0 (sm, hist) = (sm2, hist2)"
    by (cases "sync_kind c net utcnow rs k0 (sm, hist)")
  have sets: "\<And>A B A2 B2 :: string set.
      (A2 = A \<and> B2 = B) \<or> (A2 = insert k0 A \<and> B2 = B) \<or> (A2 = A \<and> B2 = insert k0 B) \<Longrightarrow>
      A2 \<union> B2 \<subseteq> insert k0 (A \<union> B) \<and> A2 \<inter> B2 \<subseteq> (A \<inter> B) \<union> ({k0} \<inter> (A \<union> B))"
    by auto
  from sets[OF sync_kind_keys[OF s2]]
  have keys2: "summary_keys sm2 \<subseteq> insert k0 (summary_keys sm)"
    and both2: "fst ` set (synced sm2) \<inter> fst ` set (errors sm2)
                \<subseteq> (fst ` set (synced sm) \<inter> fst ` set (errors sm)) \<union> ({k0} \<inter> summary_keys sm)"
    unfolding summary_keys_def by simp_all
  have "fold (sync_kind c net utcnow rs) ks (sm2, hist2) = (sm', hist')"
    using Cons.prems s2 by simp
  from Cons.IH[OF this] have
    ih1: "summary_keys sm' \<subseteq> summary_keys sm2 \<union> set ks" and
    ih2: "\<And>k. k \<in> fst ` set (synced sm') \<inter> fst ` set (errors sm') \<Longrightarrow>
        k \<in> fst ` set (synced sm2) \<inter> fst ` set (errors sm2) \<or>
        (k \<in> summary_keys sm2 \<and> k \<in> set ks) \<or> 2 \<le> count_list ks k"
    by blast+
  have c: "1 \<le> count_list ks k" if "k \<in> set ks" for k
  proof -
    from that have "count_list ks k \<noteq> 0" by (simp add: count_list_0_iff)
    then show ?thesis by simp
  qed
  have "\<And>k. k \<in> fst ` set (synced sm') \<inter> fst ` set (errors sm') \<Longrightarrow>
        k \<in> fst ` set (synced sm) \<inter> fst ` set (errors sm) \<or>
        (k \<in> summary_keys sm \<and> k \<in> set (k0 # ks)) \<or> 2 \<le> count_list (k0 # ks) k"
  proof -
    fix k assume "k \<in> fst ` set (synced sm') \<inter> fst ` set (errors sm')"
    from ih2[OF this] consider
      "k \<in> fst ` set (synced sm2) \<inter> fst ` set (errors sm2)"
      | "k \<in> summary_keys sm2" "k \<in> set ks" | "2 \<le> count_list ks k"
      by blast
    then show "k \<in> fst ` set (synced sm) \<inter> fst ` set (errors sm) \<or>
        (k \<in> summary_keys sm \<and> k \<in> set (k0 # ks)) \<or> 2 \<le> count_list (k0 # ks) k"
    proof cases
      case 1
      with both2 show ?thesis by auto
    next
      case 2
      with keys2 c[of k] show ?thesis by (cases "k = k0") auto
    next
      case 3
      then show ?thesis by simp
    qed
  qed
  moreover have "summary_keys sm' \<subseteq> summary_keys sm \<union> set (k0 # ks)"
    using ih1 keys2 by auto
  ultimately show ?case by blast
qed

text \<open>
  C7, as the code has it. Every run returns a summary in which a kind is a key of both
  \<^verbatim>\<open>synced\<close> and \<^verbatim>\<open>errors\<close> only if the list of requested kinds names it at least
  twice, whatever the registry answers. So when no kind is requested twice (as in the
  default run over all six kinds), no kind is in both maps.
\<close>

theorem summary_kinds_disjoint:
  "\<exists>r. sync_all_resources g net ck log_before resource_types = Inr r \<and>
       (\<forall>k. k \<in> fst ` set (synced (run_summary r)) \<and> k \<in> fst ` set (errors (run_summary r))
            \<longrightarrow> 2 \<le> count_list (types_to_sync resource_types) k) \<and>
       (distinct (types_to_sync resource_types) \<longrightarrow>
          fst ` set (synced (run_summary r)) \<inter> fst ` set (errors (run_summary r)) = {})"
proof -
  obtain sm1 hist1 where f:
    "fold (sync_kind the_registry net (utcnow_iso ck) (fetched g)) (types_to_sync resource_types)
       (initial_summary ck, [health_request the_registry]) = (sm1, hist1)"
    by (cases "fold (sync_kind the_registry net (utcnow_iso ck) (fetched g))
                 (types_to_sync resource_types)
                 (initial_summary ck, [health_request the_registry])")
  have twice: "\<And>k. k \<in> fst ` set (synced sm1) \<inter> fst ` set (errors sm1)
                 \<Longrightarrow> 2 \<le> count_list (types_to_sync resource_types) k"
    using fold_sync_kind_twice[OF f] by (auto simp: summary_keys_def initial_summary_def)
  have once: "distinct (types_to_sync resource_types) \<Longrightarrow>
              fst ` set (synced sm1) \<inter> fst ` set (errors sm1) = {}"
  proof -
    assume d: "distinct (types_to_sync resource_types)"
    have "k \<notin> fst ` set (synced sm1) \<inter> fst ` set (errors sm1)" for k
    proof
      assume "k \<in> fst ` set (synced sm1) \<inter> fst ` set (errors sm1)"
      from twice[OF this] count_list_distinct[OF d, of k] show False by simp
    qed
    then show ?thesis by blast
  qed
  show ?thesis
    using twice once by (simp add: sync_all_resources_shape[OF f])
qed

text \<open>
  The claim C7 as stated fails when a kind is requested twice: the first sync of
  \<^verbatim>\<open>domains\<close> succeeds and writes \<^verbatim>\<open>synced['domains']\<close>, the second fails and writes
  \<^verbatim>\<open>errors['domains']\<close>.
\<close>

theorem summary_kinds_disjoint_counterexample:
  "returned_summary (sync_all_resources example_getters flaky_network example_clock []
                       (Some [''domains'', ''domains'']))
   = Some \<lparr>timestamp = ''2024-05-01T12:00:00'', synced = [(''domains'', 3)],
           errors = [(''domains'', JString ''503 Server Error: Service Unavailable for url: https://chitty.cc/registry/api/sync/domain'')],
           total = 3\<rparr>"
  by code_simp

theorem summary_kinds_disjoint_witness:
  "(\<exists>r. sync_all_resources example_getters flaky_network example_clock []
           (Some [''domains'', ''domains'']) = Inr r \<and>
        ''domains'' \<in> fst ` set (synced (run_summary r)) \<and>
        ''domains'' \<in> fst ` set (errors (run_summary r)) \<and>
        2 \<le> count_list (types_to_sync (Some [''domains'', ''domains''])) ''domains'') \<and>
   distinct (types_to_sync (Some [''domains'', ''workers''])) \<and>
   distinct (types_to_sync None) \<and>
   (\<exists>r. sync_all_resources example_getters example_network example_clock []
           (Some [''domains'', ''workers'']) = Inr r \<and>
        fst ` set (synced (run_summary r)) \<inter> fst ` set (errors (run_summary r)) = {})"
proof -
  have d: "distinct (types_to_sync (Some [''domains'', ''workers'']))"
          "distinct (types_to_sync None)"
    by (simp_all add: types_to_sync_def available_types_def)
  have s: "returned_summary (sync_all_resources example_getters flaky_network example_clock []
                       (Some [''domains'', ''domains'']))
     = Some \<lparr>timestamp = ''2024-05-01T12:00:00'', synced = [(''domains'', 3)],
             errors = [(''domains'', JString ''503 Server Error: Service Unavailable for url: https://chitty.cc/registry/api/sync/domain'')],
             total = 3\<rparr>"
    by code_simp
  from summary_kinds_disjoint[of example_getters flaky_network example_clock "[]"
      "Some [''domains'', ''domains'']"]
  obtain r where r:
    "sync_all_resources example_getters flaky_network example_clock []
       (Some [''domains'', ''domains'']) = Inr r"
    "\<forall>k. k \<in> fst ` set (synced (run_summary r)) \<and> k \<in> fst ` set (errors (run_summary r))
         \<longrightarrow> 2 \<le> count_list (types_to_sync (Some [''domains'', ''domains''])) k"
    by blast
  from s r(1) have m: "''domains'' \<in> fst ` set (synced (run_summary r))"
                      "''domains'' \<in> fst ` set (errors (run_summary r))"
    by (simp_all add: returned_summary_def)
  with r(2) have "2 \<le> count_list (types_to_sync (Some [''domains'', ''domains''])) ''domains''"
    by blast
  with r(1) m have first:
    "\<exists>r. sync_all_resources example_getters flaky_network example_clock []
           (Some [''domains'', ''domains'']) = Inr r \<and>
        ''domains'' \<in> fst ` set (synced (run_summary r)) \<and>
        ''domains'' \<in> fst ` set (errors (run_summary r)) \<and>
        2 \<le> count_list (types_to_sync (Some [''domains'', ''domains''])) ''domains''"
    by blast
  from summary_kinds_disjoint[of example_getters example_network example_clock "[]"
      "Some [''domains'', ''workers'']"] d(1)
  have "\<exists>r. sync_all_resources example_getters example_network example_clock []
           (Some [''domains'', ''workers'']) = Inr r \<and>
        fst ` set (synced (run_summary r)) \<inter> fst ` set (errors (run_summary r)) = {}"
    by blast
  with first d show ?thesis by blast
qed

lemma resources_of_fetched:
  "resources_of (fetched g) (kind_key k) = (case g k of Inl e \<Rightarrow> [] | Inr xs \<Rightarrow> xs)"
  unfolding resources_of_def by (simp only: map_of_fetched option.case)

lemma kind_key_inj: "kind_key k = kind_key k' \<Longrightarrow> k = k'"
  by (cases k; cases k'; simp)




lemma available_types_inj:
  "map_of available_types k1 = Some ty \<Longrightarrow> map_of available_types k2 = Some ty \<Longrightarrow> k1 = k2"
  by (auto simp: available_types_def split: if_splits)

lemma sync_calls_ok_snoc:
  "sync_calls_ok c utcnow rs hist \<Longrightarrow> map_of available_types key = Some ty \<Longrightarrow>
   resources_of rs key \<noteq> [] \<Longrightarrow>
   sync_calls_ok c utcnow rs (hist @ [sync_request c utcnow ty (resources_of rs key)])"
  unfolding sync_calls_ok_def by auto

lemma fold_sync_kind_nonempty:
  "sync_calls_ok c utcnow rs hist \<Longrightarrow>
   fold (sync_kind c net utcnow rs) ks (sm, hist) = (sm', hist') \<Longrightarrow>
   sync_calls_ok c utcnow rs hist' \<and>
   summary_keys sm' \<subseteq> summary_keys sm \<union> {key. resources_of rs key \<noteq> []}"
proof (induction ks arbitrary: sm hist)
  case Nil
  then show ?case by simp
next
  case (Cons k ks)
  obtain sm2 hist2 where s2: "sync_kind c net utcnow rs k (sm, hist) = (sm2, hist2)"
    by (cases "sync_kind c net utcnow rs k (sm, hist)")
  have h2: "sync_calls_ok c utcnow rs hist2"
    using sync_kind_step[OF s2] Cons.prems(1)
    by (elim disjE exE conjE) (simp_all add: sync_calls_ok_snoc)
  have k2: "summary_keys sm2 \<subseteq> summary_keys sm \<union> {key. resources_of rs key \<noteq> []}"
  proof (cases "sm2 = sm")
    case True
    then show ?thesis by simp
  next
    case False
    with sync_kind_step[OF s2] have "resources_of rs k \<noteq> []" by auto
    moreover have "summary_keys sm2 \<subseteq> insert k (summary_keys sm)"
      using sync_kind_keys[OF s2] unfolding summary_keys_def by auto
    ultimately show ?thesis by auto
  qed
  have "fold (sync_kind c net utcnow rs) ks (sm2, hist2) = (sm', hist')"
    using Cons.prems(2) s2 by simp
  from Cons.IH[OF h2 this] k2 show ?case by auto
qed

lemma no_sync_call:
  assumes ok: "sync_calls_ok c utcnow rs hist"
    and ty: "map_of available_types key = Some ty"
    and empty: "resources_of rs key = []"
  shows "sync_endpoint c ty \<notin> request_url ` set hist"
proof
  assume "sync_endpoint c ty \<in> request_url ` set hist"
  then obtain q where q: "q \<in> set hist" "request_url q = sync_endpoint c ty" by auto
  from ok q(1) consider "q = health_request c"
    | key' ty' where "map_of available_types key' = Some ty'" "resources_of rs key' \<noteq> []"
        "q = sync_request c utcnow ty' (resources_of rs key')"
    unfolding sync_calls_ok_def by blast
  then show False
  proof cases
    case 1
    with q(2) show False
      by (simp add: health_request_def sync_endpoint_def)
  next
    case (2 key' ty')
    with q(2) have "ty' = ty"
      by (simp add: sync_request_def post_def sync_endpoint_def)
    with 2(1) ty have "key' = key" by (auto dest: available_types_inj)
    with 2(2) empty show False by simp
  qed
qed

lemma fetched_upd_empty:
  "(case g k of Inl e \<Rightarrow> [] | Inr xs \<Rightarrow> xs) = [] \<Longrightarrow> fetched (g(k := Inr [])) = fetched g"
  by (cases k) (simp_all add: fetched_def)

lemma sync_all_resources_fetched:
  "fetched g = fetched g' \<Longrightarrow>
   sync_all_resources g net ck log_before ts = sync_all_resources g' net ck log_before ts"
  by (simp add: sync_all_resources_def get_all_resources_working then_do_def)

text \<open>
  C6, as the code has it. A requested kind \<open>k\<close> for which the orchestrator sees no
  records, because the getter returned the empty list or because it raised (which
  \<^verbatim>\<open>get_all_resources\<close> turns into the empty list), is skipped: no request goes to the sync
  endpoint of its type, and its key is in neither \<^verbatim>\<open>synced\<close> nor \<^verbatim>\<open>errors\<close>. A fetch
  error is printed by the fetcher and not told apart from zero records afterwards: the
  run is the same, in everything it returns, sends and writes, as the run in which the
  getter returns the empty list.
\<close>

theorem zero_records_skipped:
  "(case g k of Inl e \<Rightarrow> [] | Inr xs \<Rightarrow> xs) = [] \<longrightarrow>
     (\<exists>r. sync_all_resources g net ck log_before resource_types = Inr r \<and>
          kind_key k \<notin> fst ` set (synced (run_summary r)) \<and>
          kind_key k \<notin> fst ` set (errors (run_summary r)) \<and>
          (\<forall>ty. map_of available_types (kind_key k) = Some ty \<longrightarrow>
                sync_endpoint the_registry ty \<notin> request_url ` set (requests_sent r)) \<and>
          sync_all_resources (g(k := Inr [])) net ck log_before resource_types = Inr r) \<and>
     (\<forall>e. g k = Inl e \<longrightarrow>
          (\<exists>rs printed. get_all_resources working_console g = Inr (rs, printed) \<and>
                         error_line k e \<in> set printed))"
proof (intro impI conjI)
  assume e: "(case g k of Inl e \<Rightarrow> [] | Inr xs \<Rightarrow> xs) = []"
  obtain sm1 hist1 where f:
    "fold (sync_kind the_registry net (utcnow_iso ck) (fetched g)) (types_to_sync resource_types)
       (initial_summary ck, [health_request the_registry]) = (sm1, hist1)"
    by (cases "fold (sync_kind the_registry net (utcnow_iso ck) (fetched g))
                 (types_to_sync resource_types)
                 (initial_summary ck, [health_request the_registry])")
  have r0: "resources_of (fetched g) (kind_key k) = []"
    by (simp add: resources_of_fetched e)
  have "sync_calls_ok the_registry (utcnow_iso ck) (fetched g) [health_request the_registry]"
    by (simp add: sync_calls_ok_def)
  from fold_sync_kind_nonempty[OF this f] have
    ok: "sync_calls_ok the_registry (utcnow_iso ck) (fetched g) hist1" and
    keys: "summary_keys sm1 \<subseteq> {key. resources_of (fetched g) key \<noteq> []}"
    by (simp_all add: summary_keys_def initial_summary_def)
  have nk: "kind_key k \<notin> summary_keys sm1"
    using keys r0 by auto
  have nc: "\<forall>ty. map_of available_types (kind_key k) = Some ty \<longrightarrow>
                sync_endpoint the_registry ty \<notin> request_url ` set hist1"
    using no_sync_call[OF ok _ r0] by blast
  have same: "sync_all_resources (g(k := Inr [])) net ck log_before resource_types
              = sync_all_resources g net ck log_before resource_types"
    using e by (intro sync_all_resources_fetched fetched_upd_empty)
  show "\<exists>r. sync_all_resources g net ck log_before resource_types = Inr r \<and>
          kind_key k \<notin> fst ` set (synced (run_summary r)) \<and>
          kind_key k \<notin> fst ` set (errors (run_summary r)) \<and>
          (\<forall>ty. map_of available_types (kind_key k) = Some ty \<longrightarrow>
                sync_endpoint the_registry ty \<notin> request_url ` set (requests_sent r)) \<and>
          sync_all_resources (g(k := Inr [])) net ck log_before resource_types = Inr r"
    unfolding same using nk nc
    by (simp add: sync_all_resources_shape[OF f] summary_keys_def)
  show "\<forall>e. g k = Inl e \<longrightarrow>
          (\<exists>rs printed. get_all_resources working_console g = Inr (rs, printed) \<and>
                         error_line k e \<in> set printed)"
    by (simp add: get_all_resources_working fetch_output_line)
qed

text \<open>
  The claim C6 as stated fails in its last part: when all six getters raise, no fetch
  error reaches the run. \<^verbatim>\<open>errors\<close> is empty, the exit status is 0, the only request
  sent is the health check, and the run is the run of a fetcher that finds nothing.
\<close>

theorem zero_records_skipped_counterexample:
  "failing_getters Domains = Inl (Exn Exception ''API error: 403 - forbidden'') \<and>
   returned_summary (sync_all_resources failing_getters down_network example_clock [] None)
     = Some \<lparr>timestamp = ''2024-05-01T12:00:00'', synced = [], errors = [], total = 0\<rparr> \<and>
   returned_status (sync_all_resources failing_getters down_network example_clock [] None)
     = Some 0 \<and>
   returned_requests (sync_all_resources failing_getters down_network example_clock [] None)
     = Some [health_request the_registry] \<and>
   sync_all_resources failing_getters down_network example_clock [] None
     = sync_all_resources empty_getters down_network example_clock [] None"
  by code_simp

theorem zero_records_skipped_witness:
  "(case example_getters Pages of Inl e \<Rightarrow> [] | Inr xs \<Rightarrow> xs) = [] \<and>
   (\<exists>r. sync_all_resources example_getters example_network example_clock [] None = Inr r \<and>
        ''pages'' \<notin> fst ` set (synced (run_summary r)) \<and>
        ''pages'' \<notin> fst ` set (errors (run_summary r)) \<and>
        ''https://chitty.cc/registry/api/sync/pages'' \<notin> request_url ` set (requests_sent r) \<and>
        sync_all_resources (example_getters(Pages := Inr [])) example_network example_clock [] None
          = Inr r) \<and>
   (\<exists>rs printed. get_all_resources working_console example_getters = Inr (rs, printed) \<and>
        ''Error fetching pages: API error: 403 - forbidden'' \<in> set printed)"
proof -
  have e: "(case example_getters Pages of Inl e \<Rightarrow> [] | Inr xs \<Rightarrow> xs) = []"
    by (simp add: example_getters_def)
  have p: "example_getters Pages = Inl (Exn Exception ''API error: 403 - forbidden'')"
    by (simp add: example_getters_def)
  have t: "map_of available_types (kind_key Pages) = Some ''pages''"
    by (simp add: available_types_def)
  have u: "sync_endpoint the_registry ''pages'' = ''https://chitty.cc/registry/api/sync/pages''"
    by (simp add: sync_endpoint_def the_registry_def RegistryUpdater_def default_api_url_def)
  from zero_records_skipped[of example_getters Pages example_network example_clock "[]" None] e
  obtain r where r:
    "sync_all_resources example_getters example_network example_clock [] None = Inr r"
    "kind_key Pages \<notin> fst ` set (synced (run_summary r))"
    "kind_key Pages \<notin> fst ` set (errors (run_summary r))"
    "\<forall>ty. map_of available_types (kind_key Pages) = Some ty \<longrightarrow>
          sync_endpoint the_registry ty \<notin> request_url ` set (requests_sent r)"
    "sync_all_resources (example_getters(Pages := Inr [])) example_network example_clock [] None
       = Inr r"
    and pr: "\<forall>e. example_getters Pages = Inl e \<longrightarrow>
          (\<exists>rs printed. get_all_resources working_console example_getters = Inr (rs, printed) \<and>
                         error_line Pages e \<in> set printed)"
    by blast
  from r(4) t u have "''https://chitty.cc/registry/api/sync/pages''
                      \<notin> request_url ` set (requests_sent r)"
    by auto
  moreover from pr p have
    "\<exists>rs printed. get_all_resources working_console example_getters = Inr (rs, printed) \<and>
        ''Error fetching pages: API error: 403 - forbidden'' \<in> set printed"
    by (auto simp: error_line_def)
  ultimately show ?thesis
    using e r(1,2,3,5) by auto
qed






section \<open>Properties of the Webhook Listener\<close>

lemma digit_char_ascii: "(of_char (digit_char n) :: nat) < 128"
proof -
  have "list_all (\<lambda>c. (of_char c :: nat) < 128) ''0123456789abcdef''"
    by simp
  then have "\<forall>i < length ''0123456789abcdef''. (of_char (''0123456789abcdef'' ! i) :: nat) < 128"
    unfolding list_all_length .
  moreover have "n mod 16 < length ''0123456789abcdef''"
    by simp
  ultimately show ?thesis
    unfolding digit_char_def by blast
qed

lemma is_ascii_hexdigest: "is_ascii (hexdigest d)"
  by (induction d) (simp_all add: is_ascii_def hexdigest_def hex2_def digit_char_ascii)

lemma verify_signature_ascii:
  "is_ascii signature \<Longrightarrow>
   verify_signature H env body signature
     = Inr (hexdigest (H (encode_utf8 (WEBHOOK_SECRET env)) body) = signature)"
  by (simp add: verify_signature_def compare_digest_def is_ascii_hexdigest)

lemma verify_signature_non_ascii:
  "\<not> is_ascii signature \<Longrightarrow>
   verify_signature H env body signature
     = Inl (Exn TypeError ''comparing strings with non-ASCII characters is not supported'')"
  by (simp add: verify_signature_def compare_digest_def)

lemma webhook_rejects:
  assumes "is_ascii (headers_get rq ''X-Signature-256'' [])"
    and "headers_get rq ''X-Signature-256'' []
         \<noteq> hexdigest (H (encode_utf8 (WEBHOOK_SECRET env)) (get_data rq))"
  shows "cloudflare_webhook out H loads env rq
         = (JsonResponse 403 (JObject [(''error'', JString ''Invalid signature'')]), [])"
  using assms by (auto simp: cloudflare_webhook_def verify_signature_ascii Let_def)

lemma webhook_valid:
  assumes "headers_get rq ''X-Signature-256'' []
           = hexdigest (H (encode_utf8 (WEBHOOK_SECRET env)) (get_data rq))"
  shows "cloudflare_webhook out H loads env rq
         = (case process_event out loads (get_data rq) of
              Inl e \<Rightarrow>
                (case print out (''Error processing webhook: '' @ str_exn e) of
                   Inl e' \<Rightarrow> (InternalServerError, [])
                 | Inr u \<Rightarrow>
                     (JsonResponse 500 (JObject [(''error'', JString ''Processing failed'')]),
                      []))
            | Inr answer \<Rightarrow> answer)"
proof -
  have "is_ascii (headers_get rq ''X-Signature-256'' [])"
    unfolding assms by (rule is_ascii_hexdigest)
  then show ?thesis
    using assms by (simp add: cloudflare_webhook_def verify_signature_ascii Let_def)
qed

lemma event_type_of_dict:
  "event_type_of data = Inr event_type \<Longrightarrow> \<exists>d. data = JObject d"
  by (cases data) (simp_all add: event_type_of_def then_do_def)

lemma webhook_accepts:
  assumes "headers_get rq ''X-Signature-256'' []
           = hexdigest (H (encode_utf8 (WEBHOOK_SECRET env)) (get_data rq))"
    and "loads (get_data rq) = Inr data" and "event_type_of data = Inr (JString t)"
    and "map_of event_mapping t = Some (resource_type, action)"
  shows "\<exists>body resource_data.
           cloudflare_webhook out H loads env rq
           = (JsonResponse 202 body, [(resource_type, resource_data, action)])"
proof -
  from event_type_of_dict[OF assms(3)] obtain d where "data = JObject d" by blast
  with assms(2,3,4) show ?thesis
    using webhook_valid[where H = H and env = env and rq = rq and loads = loads and out = out,
        OF assms(1)]
    by (simp add: process_event_def then_do_def)
qed

lemma process_unknown_event:
  assumes "loads body = Inr data" and "event_type_of data = Inr event_type"
    and "table_lookup event_type event_mapping = Inr None"
  shows "process_event out loads body
         = (case out (''Unhandled event type: '' @ py_str event_type) of
              None \<Rightarrow>
                Inr (JsonResponse 200
                       (JObject [(''status'', JString ''ignored''), (''event'', event_type)]), [])
            | Some e \<Rightarrow> Inl e)"
proof -
  from event_type_of_dict[OF assms(2)] obtain d where "data = JObject d" by blast
  with assms show ?thesis
    by (simp add: process_event_def then_do_def print_def split: option.split)
qed

text \<open>
  C2 fails on the code for a signature header that is not ASCII: \<^verbatim>\<open>hmac.compare_digest\<close>
  raises \<^verbatim>\<open>TypeError\<close>, the call of \<^verbatim>\<open>verify_signature\<close> stands before the \<^verbatim>\<open>try\<close> of the
  view, and the request is answered with status 500, not 403 (nothing is parsed and no
  thread is started). Such a header never equals the hexadecimal digest.
\<close>

theorem webhook_non_ascii_signature:
  "\<not> is_ascii (headers_get rq ''X-Signature-256'' []) \<longrightarrow>
     cloudflare_webhook out H loads env rq = (InternalServerError, []) \<and>
     status_of (fst (cloudflare_webhook out H loads env rq)) = 500 \<and>
     headers_get rq ''X-Signature-256'' []
       \<noteq> hexdigest (H (encode_utf8 (WEBHOOK_SECRET env)) (get_data rq))"
proof (intro impI conjI)
  assume n: "\<not> is_ascii (headers_get rq ''X-Signature-256'' [])"
  then show w: "cloudflare_webhook out H loads env rq = (InternalServerError, [])"
    by (simp add: cloudflare_webhook_def verify_signature_non_ascii Let_def)
  then show "status_of (fst (cloudflare_webhook out H loads env rq)) = 500"
    by simp
  show "headers_get rq ''X-Signature-256'' []
       \<noteq> hexdigest (H (encode_utf8 (WEBHOOK_SECRET env)) (get_data rq))"
    using n is_ascii_hexdigest[of "H (encode_utf8 (WEBHOOK_SECRET env)) (get_data rq)"]
    by auto
qed

theorem webhook_non_ascii_signature_witness:
  "\<not> is_ascii (headers_get \<lparr>request_headers = [''X-Signature-256'' \<mapsto> [CHR 0xE9]],
                              get_data = ''zone''\<rparr> ''X-Signature-256'' []) \<and>
   cloudflare_webhook working_console example_hmac example_loads no_environ
     \<lparr>request_headers = [''X-Signature-256'' \<mapsto> [CHR 0xE9]], get_data = ''zone''\<rparr>
     = (InternalServerError, []) \<and>
   status_of (fst (cloudflare_webhook working_console example_hmac example_loads no_environ
     \<lparr>request_headers = [''X-Signature-256'' \<mapsto> [CHR 0xE9]], get_data = ''zone''\<rparr>)) = 500"
proof -
  have n: "\<not> is_ascii (headers_get \<lparr>request_headers = [''X-Signature-256'' \<mapsto> [CHR 0xE9]],
                              get_data = ''zone''\<rparr> ''X-Signature-256'' [])"
    by (simp add: is_ascii_def headers_get_def)
  with webhook_non_ascii_signature[of
      "\<lparr>request_headers = [''X-Signature-256'' \<mapsto> [CHR 0xE9]], get_data = ''zone''\<rparr>"
      working_console example_hmac example_loads no_environ]
  show ?thesis by simp
qed

text \<open>
  C9 holds on the code as long as the line \<^verbatim>\<open>Unhandled event type: <type>\<close> can be
  printed, and fails when it cannot. A request with a valid signature whose body parses
  to a document with an event type that can be looked up and is no key of the mapping
  table (a string that is not in the table, a missing type, a number, a bool or
  \<^verbatim>\<open>null\<close>) makes the view print that line inside its \<^verbatim>\<open>try\<close>. When the console writes the
  line, the request is answered with status 200 and
  \<^verbatim>\<open>{"status": "ignored", "event": <type>}\<close>. When the \<^verbatim>\<open>print\<close> raises \<open>e\<close>, the handler of
  the \<^verbatim>\<open>try\<close> takes over: the answer is 500 \<^verbatim>\<open>{"error": "Processing failed"}\<close>, or the 500
  page of Flask when the handler's own \<^verbatim>\<open>print\<close> raises too. Either way the view starts
  no thread, and when the request is done the registry has received nothing and
  \<^verbatim>\<open>webhook_events.log\<close> is what it was.
\<close>

theorem unknown_event_unprintable_type:
  "headers_get rq ''X-Signature-256'' []
     = hexdigest (H (encode_utf8 (WEBHOOK_SECRET env)) (get_data rq)) \<and>
   loads (get_data rq) = Inr data \<and>
   event_type_of data = Inr event_type \<and>
   table_lookup event_type event_mapping = Inr None
   \<longrightarrow>
   (out (''Unhandled event type: '' @ py_str event_type) = None \<longrightarrow>
      cloudflare_webhook out H loads env rq
        = (JsonResponse 200 (JObject [(''status'', JString ''ignored''), (''event'', event_type)]),
           []) \<and>
      serve_webhook out H loads env net ck rq w
        = (JsonResponse 200 (JObject [(''status'', JString ''ignored''), (''event'', event_type)]),
           w)) \<and>
   (\<forall>e. out (''Unhandled event type: '' @ py_str event_type) = Some e \<longrightarrow>
      cloudflare_webhook out H loads env rq
        = (if out (''Error processing webhook: '' @ str_exn e) = None
           then JsonResponse 500 (JObject [(''error'', JString ''Processing failed'')])
           else InternalServerError, []) \<and>
      status_of (fst (cloudflare_webhook out H loads env rq)) = 500 \<and>
      serve_webhook out H loads env net ck rq w
        = (fst (cloudflare_webhook out H loads env rq), w))"
proof (intro impI)
  assume a: "headers_get rq ''X-Signature-256'' []
     = hexdigest (H (encode_utf8 (WEBHOOK_SECRET env)) (get_data rq)) \<and>
   loads (get_data rq) = Inr data \<and>
   event_type_of data = Inr event_type \<and>
   table_lookup event_type event_mapping = Inr None"
  then have p: "process_event out loads (get_data rq)
         = (case out (''Unhandled event type: '' @ py_str event_type) of
              None \<Rightarrow>
                Inr (JsonResponse 200
                       (JObject [(''status'', JString ''ignored''), (''event'', event_type)]), [])
            | Some e \<Rightarrow> Inl e)"
    by (intro process_unknown_event[where data = data]) simp_all
  have v: "cloudflare_webhook out H loads env rq
         = (case process_event out loads (get_data rq) of
              Inl e \<Rightarrow>
                (case print out (''Error processing webhook: '' @ str_exn e) of
                   Inl e' \<Rightarrow> (InternalServerError, [])
                 | Inr u \<Rightarrow>
                     (JsonResponse 500 (JObject [(''error'', JString ''Processing failed'')]),
                      []))
            | Inr answer \<Rightarrow> answer)"
    using a by (intro webhook_valid) simp
  have ignored: "cloudflare_webhook out H loads env rq
        = (JsonResponse 200 (JObject [(''status'', JString ''ignored''), (''event'', event_type)]),
           [])"
    if "out (''Unhandled event type: '' @ py_str event_type) = None"
    using that by (simp add: v p)
  have failed: "cloudflare_webhook out H loads env rq
        = (if out (''Error processing webhook: '' @ str_exn e) = None
           then JsonResponse 500 (JObject [(''error'', JString ''Processing failed'')])
           else InternalServerError, [])"
    if "out (''Unhandled event type: '' @ py_str event_type) = Some e" for e
    using that by (simp add: v p print_def split: option.split)
  show "(out (''Unhandled event type: '' @ py_str event_type) = None \<longrightarrow>
      cloudflare_webhook out H loads env rq
        = (JsonResponse 200 (JObject [(''status'', JString ''ignored''), (''event'', event_type)]),
           []) \<and>
      serve_webhook out H loads env net ck rq w
        = (JsonResponse 200 (JObject [(''status'', JString ''ignored''), (''event'', event_type)]),
           w)) \<and>
   (\<forall>e. out (''Unhandled event type: '' @ py_str event_type) = Some e \<longrightarrow>
      cloudflare_webhook out H loads env rq
        = (if out (''Error processing webhook: '' @ str_exn e) = None
           then JsonResponse 500 (JObject [(''error'', JString ''Processing failed'')])
           else InternalServerError, []) \<and>
      status_of (fst (cloudflare_webhook out H loads env rq)) = 500 \<and>
      serve_webhook out H loads env net ck rq w
        = (fst (cloudflare_webhook out H loads env rq), w))"
  proof (intro conjI impI allI)
    assume n: "out (''Unhandled event type: '' @ py_str event_type) = None"
    show "cloudflare_webhook out H loads env rq
        = (JsonResponse 200 (JObject [(''status'', JString ''ignored''), (''event'', event_type)]),
           [])"
      using n by (rule ignored)
    then show "serve_webhook out H loads env net ck rq w
        = (JsonResponse 200 (JObject [(''status'', JString ''ignored''), (''event'', event_type)]),
           w)"
      by (simp add: serve_webhook_def run_update_tasks_def)
  next
    fix e
    assume s: "out (''Unhandled event type: '' @ py_str event_type) = Some e"
    show c: "cloudflare_webhook out H loads env rq
        = (if out (''Error processing webhook: '' @ str_exn e) = None
           then JsonResponse 500 (JObject [(''error'', JString ''Processing failed'')])
           else InternalServerError, [])"
      using s by (rule failed)
    then show "status_of (fst (cloudflare_webhook out H loads env rq)) = 500"
      by simp
    show "serve_webhook out H loads env net ck rq w
        = (fst (cloudflare_webhook out H loads env rq), w)"
      by (simp add: c serve_webhook_def run_update_tasks_def)
  qed
qed

theorem unknown_event_unprintable_type_witness:
  "headers_get (signed_request ''purge'') ''X-Signature-256'' []
     = hexdigest (example_hmac (encode_utf8 (WEBHOOK_SECRET no_environ))
                    (get_data (signed_request ''purge''))) \<and>
   example_loads (get_data (signed_request ''purge''))
     = Inr (JObject [(''event'', JObject [(''type'', JString ''zone.cache.purged'')])]) \<and>
   event_type_of (JObject [(''event'', JObject [(''type'', JString ''zone.cache.purged'')])])
     = Inr (JString ''zone.cache.purged'') \<and>
   table_lookup (JString ''zone.cache.purged'') event_mapping = Inr None \<and>
   ascii_console ''Unhandled event type: zone.cache.purged'' = None \<and>
   serve_webhook ascii_console example_hmac example_loads no_environ down_network example_clock
       (signed_request ''purge'') \<lparr>registry_requests = [], webhook_events_log = ''earlier''\<rparr>
     = (JsonResponse 200 (JObject [(''status'', JString ''ignored''),
                                   (''event'', JString ''zone.cache.purged'')]),
        \<lparr>registry_requests = [], webhook_events_log = ''earlier''\<rparr>) \<and>
   headers_get (signed_request ''accent'') ''X-Signature-256'' []
     = hexdigest (example_hmac (encode_utf8 (WEBHOOK_SECRET no_environ))
                    (get_data (signed_request ''accent''))) \<and>
   example_loads (get_data (signed_request ''accent''))
     = Inr (JObject [(''event'', JObject [(''type'', JString (''caf'' @ [CHR 0xE9]))])]) \<and>
   event_type_of (JObject [(''event'', JObject [(''type'', JString (''caf'' @ [CHR 0xE9]))])])
     = Inr (JString (''caf'' @ [CHR 0xE9])) \<and>
   table_lookup (JString (''caf'' @ [CHR 0xE9])) event_mapping = Inr None \<and>
   ascii_console (''Unhandled event type: caf'' @ [CHR 0xE9])
     = Some (Exn UnicodeEncodeError
         (quoted ''ascii'' @ '' codec can't encode character '' @ quoted (CHR 0x5C # ''xe9'')
          @ '' in position 25: ordinal not in range(128)'')) \<and>
   ascii_console (''Error processing webhook: '' @ quoted ''ascii''
         @ '' codec can't encode character '' @ quoted (CHR 0x5C # ''xe9'')
         @ '' in position 25: ordinal not in range(128)'') = None \<and>
   serve_webhook ascii_console example_hmac example_loads no_environ down_network example_clock
       (signed_request ''accent'') \<lparr>registry_requests = [], webhook_events_log = ''earlier''\<rparr>
     = (JsonResponse 500 (JObject [(''error'', JString ''Processing failed'')]),
        \<lparr>registry_requests = [], webhook_events_log = ''earlier''\<rparr>)"
proof -
  let ?w = "\<lparr>registry_requests = [], webhook_events_log = ''earlier''\<rparr>"
  let ?u = "Exn UnicodeEncodeError
         (quoted ''ascii'' @ '' codec can't encode character '' @ quoted (CHR 0x5C # ''xe9'')
          @ '' in position 25: ordinal not in range(128)'')"
  have s: "headers_get (signed_request body) ''X-Signature-256'' []
     = hexdigest (example_hmac (encode_utf8 (WEBHOOK_SECRET no_environ))
                    (get_data (signed_request body)))" for body
    by (simp add: signed_request_def headers_get_def)
  have l1: "example_loads (get_data (signed_request ''purge''))
     = Inr (JObject [(''event'', JObject [(''type'', JString ''zone.cache.purged'')])])"
    by (simp add: signed_request_def example_loads_def)
  have e1: "event_type_of (JObject [(''event'', JObject [(''type'', JString ''zone.cache.purged'')])])
     = Inr (JString ''zone.cache.purged'')"
    by (simp add: event_type_of_def then_do_def dict_get_def)
  have t1: "table_lookup (JString ''zone.cache.purged'') event_mapping = Inr None"
    by (simp add: event_mapping_def)
  have o1: "ascii_console ''Unhandled event type: zone.cache.purged'' = None"
    by (simp add: ascii_console_def is_ascii_def)
  from unknown_event_unprintable_type[where rq = "signed_request ''purge''" and H = example_hmac
      and env = no_environ and loads = example_loads and out = ascii_console
      and data = "JObject [(''event'', JObject [(''type'', JString ''zone.cache.purged'')])]"
      and event_type = "JString ''zone.cache.purged''" and net = down_network
      and ck = example_clock and w = ?w] s l1 e1 t1 o1
  have first: "serve_webhook ascii_console example_hmac example_loads no_environ down_network
       example_clock (signed_request ''purge'') ?w
     = (JsonResponse 200 (JObject [(''status'', JString ''ignored''),
                                   (''event'', JString ''zone.cache.purged'')]), ?w)"
    by simp
  have l2: "example_loads (get_data (signed_request ''accent''))
     = Inr (JObject [(''event'', JObject [(''type'', JString (''caf'' @ [CHR 0xE9]))])])"
    by (simp add: signed_request_def example_loads_def)
  have e2: "event_type_of (JObject [(''event'', JObject [(''type'', JString (''caf'' @ [CHR 0xE9]))])])
     = Inr (JString (''caf'' @ [CHR 0xE9]))"
    by (simp add: event_type_of_def then_do_def dict_get_def)
  have t2: "table_lookup (JString (''caf'' @ [CHR 0xE9])) event_mapping = Inr None"
    by (simp add: event_mapping_def)
  have o2: "ascii_console (''Unhandled event type: caf'' @ [CHR 0xE9]) = Some ?u"
    by (simp add: ascii_console_def is_ascii_def ascii_codec_error_def Let_def quoted_def
          hex2_def digit_char_def)
  have o3: "ascii_console (''Error processing webhook: '' @ quoted ''ascii''
         @ '' codec can't encode character '' @ quoted (CHR 0x5C # ''xe9'')
         @ '' in position 25: ordinal not in range(128)'') = None"
    by (simp add: ascii_console_def is_ascii_def quoted_def)
  from unknown_event_unprintable_type[where rq = "signed_request ''accent''" and H = example_hmac
      and env = no_environ and loads = example_loads and out = ascii_console
      and data = "JObject [(''event'', JObject [(''type'', JString (''caf'' @ [CHR 0xE9]))])]"
      and event_type = "JString (''caf'' @ [CHR 0xE9])" and net = down_network
      and ck = example_clock and w = ?w] s l2 e2 t2 o2 o3
  have second: "serve_webhook ascii_console example_hmac example_loads no_environ down_network
       example_clock (signed_request ''accent'') ?w
     = (JsonResponse 500 (JObject [(''error'', JString ''Processing failed'')]), ?w)"
    by simp
  show ?thesis
    using s l1 e1 t1 o1 first l2 e2 t2 o2 o3 second by simp
qed

text \<open>
  C10. The manual-sync view answers 401 exactly when the \<^verbatim>\<open>X-API-Key\<close> header (the empty
  string when the header is missing) differs from \<^verbatim>\<open>REGISTRY_API_KEY\<close>. When the
  environment variable is unset the configured key is the empty string, so a request
  without the header, or with an empty one, passes the check, and for a valid resource
  type it is answered with 202 and one thread running the sync is started.
\<close>

theorem manual_sync_authorization:
  "(status_of (fst (manual_sync env ck rq resource_type)) = 401)
     = (headers_get rq ''X-API-Key'' [] \<noteq> REGISTRY_API_KEY env) \<and>
   (env ''REGISTRY_API_KEY'' = None \<and>
    (request_headers rq ''X-API-Key'' = None \<or> request_headers rq ''X-API-Key'' = Some []) \<and>
    resource_type \<in> set valid_types
    \<longrightarrow>
    manual_sync env ck rq resource_type
      = (JsonResponse 202
           (JObject [(''status'', JString ''sync_started''),
                     (''resource_type'', JString resource_type),
                     (''timestamp'', JString (now_iso ck))]),
         [resource_type]))"
proof (intro conjI impI)
  show "(status_of (fst (manual_sync env ck rq resource_type)) = 401)
     = (headers_get rq ''X-API-Key'' [] \<noteq> REGISTRY_API_KEY env)"
    by (simp add: manual_sync_def Let_def)
next
  assume a: "env ''REGISTRY_API_KEY'' = None \<and>
    (request_headers rq ''X-API-Key'' = None \<or> request_headers rq ''X-API-Key'' = Some []) \<and>
    resource_type \<in> set valid_types"
  then have "headers_get rq ''X-API-Key'' [] = REGISTRY_API_KEY env"
    by (auto simp: headers_get_def REGISTRY_API_KEY_def getenv_def)
  with a show "manual_sync env ck rq resource_type
      = (JsonResponse 202
           (JObject [(''status'', JString ''sync_started''),
                     (''resource_type'', JString resource_type),
                     (''timestamp'', JString (now_iso ck))]),
         [resource_type])"
    by (simp add: manual_sync_def Let_def)
qed

theorem manual_sync_authorization_witness:
  "no_environ ''REGISTRY_API_KEY'' = None \<and>
   request_headers bare_request ''X-API-Key'' = None \<and>
   ''all'' \<in> set valid_types \<and>
   manual_sync no_environ example_clock bare_request ''all''
     = (JsonResponse 202
          (JObject [(''status'', JString ''sync_started''), (''resource_type'', JString ''all''),
                    (''timestamp'', JString ''2024-05-01T12:00:00'')]),
        [''all'']) \<and>
   run_sync ''all'' = ''sync_all.py'' \<and>
   status_of (fst (manual_sync (no_environ(''REGISTRY_API_KEY'' \<mapsto> ''s3cret'')) example_clock
                     bare_request ''all'')) = 401"
proof -
  have h: "no_environ ''REGISTRY_API_KEY'' = None"
          "request_headers bare_request ''X-API-Key'' = None"
          "''all'' \<in> set valid_types"
    by (simp_all add: no_environ_def bare_request_def valid_types_def)
  have k: "headers_get bare_request ''X-API-Key'' []
           \<noteq> REGISTRY_API_KEY (no_environ(''REGISTRY_API_KEY'' \<mapsto> ''s3cret''))"
    by (simp add: headers_get_def bare_request_def REGISTRY_API_KEY_def getenv_def)
  from manual_sync_authorization[of no_environ example_clock bare_request "''all''"]
       manual_sync_authorization[of "no_environ(''REGISTRY_API_KEY'' \<mapsto> ''s3cret'')"
         example_clock bare_request "''all''"] h k
  show ?thesis
    by (simp add: example_clock_def run_sync_def)
qed

end
